theory Spec2Isabelle
  imports Complex_Main
begin

section \<open>Data model\<close>

text \<open>
  The checker of \<^verbatim>\<open>src/checker/EquivalenceChecker.cpp\<close> is a class template over the
  flavour of decision diagram it runs on. The template argument is an explicit argument
  of the model; every \<^verbatim>\<open>if constexpr (std::is_same_v<DDType, qc::MatrixDD>)\<close> of the
  source is a case distinction on it.
\<close>

datatype DDType = MatrixDD | VectorDD

datatype EquivalenceCriterion =
    NotEquivalent
  | Equivalent
  | EquivalentUpToGlobalPhase
  | EquivalentUpToPhase
  | NoInformation
  | ProbablyEquivalent

datatype ApplicationSchemeType = OneToOne | Proportional | Lookahead | GateCost

datatype StateType = ComputationalBasis | Random1QBasis | Stabilizer

text \<open>
  The two ways in which the code under \<^verbatim>\<open>src/\<close> itself gives up: the
  \<^verbatim>\<open>std::runtime_error\<close> thrown by the constructor of the checker, and a failed
  \<^verbatim>\<open>assert\<close> at the head of the lookahead scheme (assertions are taken as enabled).
\<close>

datatype error = UnsupportedSchemeForDDType | UninitializedScheme

text \<open>
  An edge of a decision diagram: the pointer \<^verbatim>\<open>p\<close> to its node (an address) and the
  complex edge weight \<^verbatim>\<open>w\<close>. The representation of weights belongs to the decision
  diagram package and stays a type parameter.
\<close>

record 'w Edge =
  p :: nat
  w :: 'w

text \<open>
  \<^verbatim>\<open>dd::ComplexValue\<close>, the result of an inner product: two doubles. The type \<open>'f\<close>
  of double precision numbers is a parameter throughout; the code's arithmetic on it is
  written with the overloaded operations \<open>-\<close>, \<open>+\<close>, \<open>*\<close>, \<open>abs\<close>, \<open><\<close> and \<open>1\<close>
  of which no law is assumed, so that every statement below holds for IEEE doubles as
  well as for the real numbers.
\<close>

record 'f ComplexValue =
  r :: 'f
  i :: 'f

subsection \<open>Configuration\<close>

text \<open>The options of \<^verbatim>\<open>ec::Configuration\<close> that the code under \<^verbatim>\<open>src/\<close> reads.\<close>

record Application =
  scheme :: ApplicationSchemeType
  useProfile :: bool
  profileLocation :: string
  costFunction :: "(string \<times> nat \<Rightarrow> nat) option"

record 'f Functionality =
  traceThreshold :: 'f

record 'f Simulation =
  fidelityThreshold :: 'f
  stateType :: StateType

record 'f Configuration =
  application :: Application
  functionality :: "'f Functionality"
  simulation :: "'f Simulation"

subsection \<open>Circuits\<close>

text \<open>
  Modelled from the spec: \<^verbatim>\<open>qc::QuantumComputation\<close> comes from a library outside the
  repository. The checker treats a circuit as a read-only sequence of gates with
  metadata; the record holds what the two accessors called by the code return, and the
  gates, of which only the distinction between a SWAP and any other gate matters here.
\<close>

datatype Operation = SWAP nat nat | Gate nat

record QuantumComputation =
  getNqubits :: nat
  getNqubitsWithoutAncillae :: nat
  gates :: "Operation list"

subsection \<open>The decision diagram package\<close>

text \<open>
  \<^verbatim>\<open>dd::Package\<close> is an external library. Its state (unique tables, compute tables,
  reference counts) is a value of a type \<open>'s\<close>, and the operations the checker calls are
  the fields of a record: operations that build decision diagrams take the state of the
  package and return the new one, queries only read it. \<^verbatim>\<open>ident\<close> reads the flag of
  the node behind a pointer; \<^verbatim>\<open>sizeDD\<close> is the package's \<^verbatim>\<open>size\<close>.
\<close>

record ('s, 'w, 'f) Package =
  makePackage :: "nat \<Rightarrow> 's"
  ident :: "'s \<Rightarrow> nat \<Rightarrow> bool"
  approximatelyEquals :: "'w \<Rightarrow> 'w \<Rightarrow> bool"
  multiply :: "'w Edge \<Rightarrow> 'w Edge \<Rightarrow> 's \<Rightarrow> 'w Edge \<times> 's"
  conjugateTranspose :: "'w Edge \<Rightarrow> 's \<Rightarrow> 'w Edge \<times> 's"
  isCloseToIdentity :: "'s \<Rightarrow> 'w Edge \<Rightarrow> 'f \<Rightarrow> bool"
  innerProduct :: "'w Edge \<Rightarrow> 'w Edge \<Rightarrow> 's \<Rightarrow> 'f ComplexValue \<times> 's"
  sizeDD :: "'s \<Rightarrow> 'w Edge \<Rightarrow> nat"
  incRef :: "'w Edge \<Rightarrow> 's \<Rightarrow> 's"
  decRef :: "'w Edge \<Rightarrow> 's \<Rightarrow> 's"
  garbageCollect :: "'s \<Rightarrow> 's"
  makeZeroState :: "nat \<Rightarrow> 's \<Rightarrow> 'w Edge \<times> 's"
  getMaxActiveNodes :: "DDType \<Rightarrow> 's \<Rightarrow> nat"

subsection \<open>Task managers\<close>

text \<open>
  \<^verbatim>\<open>TaskManager\<close> is a class of the repository whose code is not among the sources.
  A task manager is a value of a type \<open>'t\<close>; its member functions are the fields of a
  record. Those that multiply gates onto the running decision diagram act on the package
  as well.
\<close>

record ('s, 't, 'w) TaskManagerOps =
  newTaskManager :: "QuantumComputation \<Rightarrow> 't"
  finished :: "'t \<Rightarrow> bool"
  applySwapOperations :: "'t \<Rightarrow> 's \<Rightarrow> 't \<times> 's"
  advance :: "nat \<Rightarrow> 't \<Rightarrow> 's \<Rightarrow> 't \<times> 's"
  advanceIterator :: "'t \<Rightarrow> 't"
  getDD :: "'t \<Rightarrow> 's \<Rightarrow> 'w Edge \<times> 's"
  getInverseDD :: "'t \<Rightarrow> 's \<Rightarrow> 'w Edge \<times> 's"
  finish :: "'t \<Rightarrow> 's \<Rightarrow> 't \<times> 's"
  changePermutation :: "'t \<Rightarrow> 's \<Rightarrow> 't \<times> 's"
  reduceAncillae :: "'t \<Rightarrow> 's \<Rightarrow> 't \<times> 's"
  reduceGarbage :: "'t \<Rightarrow> 's \<Rightarrow> 't \<times> 's"
  getInternalState :: "'t \<Rightarrow> 'w Edge"
  setInternalState :: "'w Edge \<Rightarrow> 't \<Rightarrow> 't"
  incRefTask :: "'t \<Rightarrow> 's \<Rightarrow> 's"
  decRefTask :: "'t \<Rightarrow> 's \<Rightarrow> 's"

subsection \<open>The checker\<close>

text \<open>
  What the constructor stores in \<^verbatim>\<open>applicationScheme\<close>: which scheme class was made,
  and the arguments it was made from besides the references to the two task managers.
  The member is a \<^verbatim>\<open>unique_ptr\<close>; \<open>None\<close> is the null pointer.
\<close>

datatype SchemeObject =
    make_OneToOneApplicationScheme
  | make_ProportionalApplicationScheme
  | make_LookaheadApplicationScheme
  | make_GateCostApplicationScheme_profile string
  | make_GateCostApplicationScheme_costFunction "(string \<times> nat \<Rightarrow> nat) option"

text \<open>
  The members of \<^verbatim>\<open>EquivalenceChecker<DDType>\<close>. \<^verbatim>\<open>dd\<close> owns the package, so the
  field holds the package's state.
\<close>

record ('s, 't, 'f) EquivalenceChecker =
  qc1 :: QuantumComputation
  qc2 :: QuantumComputation
  nqubits :: nat
  dd :: 's
  taskManager1 :: 't
  taskManager2 :: 't
  configuration :: "'f Configuration"
  applicationScheme :: "SchemeObject option"
  maxActiveNodes :: nat
  runtime :: 'f

section \<open>The equals predicate\<close>

text \<open>
  \<^verbatim>\<open>EquivalenceChecker<DDType>::equals\<close>. It returns the verdict together with the
  checker, whose package the matrix and vector operations have worked on.
\<close>

definition equals ::
  "('s, 'w, 'f::{minus,plus,times,abs,ord,one}) Package \<Rightarrow> DDType \<Rightarrow>
   ('s, 't, 'f, 'z) EquivalenceChecker_scheme \<Rightarrow> 'w Edge \<Rightarrow> 'w Edge \<Rightarrow>
   EquivalenceCriterion \<times> ('s, 't, 'f, 'z) EquivalenceChecker_scheme" where
  "equals P T c e f =
    (if p e = p f then
       (if \<not> approximatelyEquals P (w e) (w f) then (EquivalentUpToGlobalPhase, c)
        else (Equivalent, c))
     else
       (case T of
          MatrixDD \<Rightarrow>
            (let (isClose, pk) =
               (if ident P (dd c) (p e) then
                  (isCloseToIdentity P (dd c) f (traceThreshold (functionality (configuration c))), dd c)
                else if ident P (dd c) (p f) then
                  (isCloseToIdentity P (dd c) e (traceThreshold (functionality (configuration c))), dd c)
                else
                  (let (ft, pk1) = conjugateTranspose P f (dd c);
                       (g, pk2) = multiply P e ft pk1
                   in (isCloseToIdentity P pk2 g (traceThreshold (functionality (configuration c))), pk2)))
             in if isClose then
                  (if \<not> approximatelyEquals P (w e) (w f) then (EquivalentUpToGlobalPhase, c\<lparr>dd := pk\<rparr>)
                   else (Equivalent, c\<lparr>dd := pk\<rparr>))
                else (NotEquivalent, c\<lparr>dd := pk\<rparr>))
        | VectorDD \<Rightarrow>
            (let (ip, pk) = innerProduct P e f (dd c) in
             if \<bar>r ip - 1\<bar> < fidelityThreshold (simulation (configuration c)) then
               (Equivalent, c\<lparr>dd := pk\<rparr>)
             else
               (let fidelity = r ip * r ip + i ip * i ip in
                if \<bar>fidelity - 1\<bar> < fidelityThreshold (simulation (configuration c)) then
                  (EquivalentUpToPhase, c\<lparr>dd := pk\<rparr>)
                else (NotEquivalent, c\<lparr>dd := pk\<rparr>)))))"

section \<open>The generic checker\<close>

subsection \<open>Construction\<close>

text \<open>
  \<^verbatim>\<open>EquivalenceChecker<DDType>::EquivalenceChecker\<close>. The member initialisers come
  first, in the order of the source; \<^verbatim>\<open>applicationScheme\<close> is a null pointer
  (\<open>None\<close>) until the \<^verbatim>\<open>switch\<close> sets it. The constructor does not mention the two
  statistics \<^verbatim>\<open>maxActiveNodes\<close> and \<^verbatim>\<open>runtime\<close>, which \<^verbatim>\<open>run\<close> assigns; they
  start at zero here. Requesting the lookahead scheme for anything but matrices throws.

  The constructor takes its \<^verbatim>\<open>Configuration\<close> by value and moves it into the member
  of the same name. In the body the plain name \<^verbatim>\<open>configuration\<close> is the parameter
  after the move, \<^verbatim>\<open>this->configuration\<close> is the member. A move keeps the scalar
  members, so \<^verbatim>\<open>useProfile\<close> is read as configured; what the move leaves in the
  string and in the callable is not fixed by the language, and is the argument \<open>moved\<close>
  of the model.
\<close>

definition EquivalenceChecker_new ::
  "('s, 'w, 'f::zero) Package \<Rightarrow> ('s, 't, 'w) TaskManagerOps \<Rightarrow> DDType \<Rightarrow>
   QuantumComputation \<Rightarrow> QuantumComputation \<Rightarrow> 'f Configuration \<Rightarrow> Application \<Rightarrow>
   error + ('s, 't, 'f) EquivalenceChecker" where
  "EquivalenceChecker_new P M T q1 q2 cfg moved =
    (let n = max (getNqubits q1) (getNqubits q2);
         c = \<lparr>qc1 = q1, qc2 = q2,
              nqubits = n,
              dd = makePackage P n,
              taskManager1 = newTaskManager M q1,
              taskManager2 = newTaskManager M q1,
              configuration = cfg,
              applicationScheme = None,
              maxActiveNodes = 0,
              runtime = 0\<rparr>
     in case scheme (application (configuration c)) of
          OneToOne \<Rightarrow> Inr (c\<lparr>applicationScheme := Some make_OneToOneApplicationScheme\<rparr>)
        | Proportional \<Rightarrow> Inr (c\<lparr>applicationScheme := Some make_ProportionalApplicationScheme\<rparr>)
        | Lookahead \<Rightarrow>
            (case T of
               MatrixDD \<Rightarrow> Inr (c\<lparr>applicationScheme := Some make_LookaheadApplicationScheme\<rparr>)
             | VectorDD \<Rightarrow> Inl UnsupportedSchemeForDDType)
        | GateCost \<Rightarrow>
            (if useProfile (application cfg) then
               Inr (c\<lparr>applicationScheme :=
                 Some (make_GateCostApplicationScheme_profile (profileLocation moved))\<rparr>)
             else
               Inr (c\<lparr>applicationScheme :=
                 Some (make_GateCostApplicationScheme_costFunction (costFunction moved))\<rparr>)))"

subsection \<open>Running\<close>

text \<open>
  A member function of a task manager, called on one of the two task managers of the
  checker: it changes that task manager and the package both of them refer to.
\<close>

definition on_task1 ::
  "('t \<Rightarrow> 's \<Rightarrow> 't \<times> 's) \<Rightarrow> ('s, 't, 'f, 'z) EquivalenceChecker_scheme \<Rightarrow>
   ('s, 't, 'f, 'z) EquivalenceChecker_scheme" where
  "on_task1 m c = (let (t, pk) = m (taskManager1 c) (dd c) in c\<lparr>taskManager1 := t, dd := pk\<rparr>)"

definition on_task2 ::
  "('t \<Rightarrow> 's \<Rightarrow> 't \<times> 's) \<Rightarrow> ('s, 't, 'f, 'z) EquivalenceChecker_scheme \<Rightarrow>
   ('s, 't, 'f, 'z) EquivalenceChecker_scheme" where
  "on_task2 m c = (let (t, pk) = m (taskManager2 c) (dd c) in c\<lparr>taskManager2 := t, dd := pk\<rparr>)"

text \<open>
  \<^verbatim>\<open>initialize\<close>. \<^verbatim>\<open>initializeTask\<close> is pure virtual in the generic checker: the
  override is an argument, a function of the checker it is called on and of the task.
\<close>

definition initialize ::
  "(('s, 't, 'f, 'z) EquivalenceChecker_scheme \<Rightarrow> 't \<Rightarrow> 's \<Rightarrow> 't \<times> 's) \<Rightarrow>
   ('s, 't, 'f, 'z) EquivalenceChecker_scheme \<Rightarrow> ('s, 't, 'f, 'z) EquivalenceChecker_scheme" where
  "initialize initializeTask c =
     (let c1 = on_task1 (initializeTask c) c
      in on_task2 (initializeTask c1) c1)"

text \<open>
  \<^verbatim>\<open>execute\<close>. The call \<^verbatim>\<open>(*applicationScheme)()\<close> is virtual and the scheme holds
  references into the checker, so the call is an argument that maps the checker to the
  pair it returns and the checker it leaves, or to an error. Nothing bounds the number
  of iterations (a scheme may return \<open>(0, 0)\<close> for ever): the loop is a partial function,
  and \<open>None\<close> stands for a loop that does not end.
\<close>

partial_function (option) execute ::
  "('s, 't, 'w) TaskManagerOps \<Rightarrow>
   (('s, 't, 'f, 'z) EquivalenceChecker_scheme \<Rightarrow>
      error + ((nat \<times> nat) \<times> ('s, 't, 'f, 'z) EquivalenceChecker_scheme)) \<Rightarrow>
   ('s, 't, 'f, 'z) EquivalenceChecker_scheme \<Rightarrow>
   (error + ('s, 't, 'f, 'z) EquivalenceChecker_scheme) option" where
  "execute M call c =
    (if \<not> finished M (taskManager1 c) \<and> \<not> finished M (taskManager2 c) then
       (let c1 = on_task1 (applySwapOperations M) c;
            c2 = on_task2 (applySwapOperations M) c1
        in if \<not> finished M (taskManager1 c2) \<and> \<not> finished M (taskManager2 c2) then
             (case call c2 of
                Inl e \<Rightarrow> Some (Inl e)
              | Inr ((apply1, apply2), c3) \<Rightarrow>
                  execute M call (on_task2 (advance M apply2) (on_task1 (advance M apply1) c3)))
           else execute M call c2)
     else Some (Inr c))"

declare execute.simps [code]

text \<open>
  \<^verbatim>\<open>finish\<close>, \<^verbatim>\<open>postprocessTask\<close>, \<^verbatim>\<open>postprocess\<close> and \<^verbatim>\<open>checkEquivalence\<close> of
  the generic checker. Its \<^verbatim>\<open>finish\<close> is \<open>finish_checker\<close> here, \<open>finish\<close> being the
  member function of the task manager that it calls.
\<close>

definition finish_checker ::
  "('s, 't, 'w) TaskManagerOps \<Rightarrow> ('s, 't, 'f, 'z) EquivalenceChecker_scheme \<Rightarrow>
   ('s, 't, 'f, 'z) EquivalenceChecker_scheme" where
  "finish_checker M c = on_task2 (finish M) (on_task1 (finish M) c)"

definition postprocessTask ::
  "('s, 't, 'w) TaskManagerOps \<Rightarrow> 't \<Rightarrow> 's \<Rightarrow> 't \<times> 's" where
  "postprocessTask M task pk =
     (let (t1, pk1) = changePermutation M task pk;
          (t2, pk2) = reduceAncillae M t1 pk1
      in reduceGarbage M t2 pk2)"

definition postprocess ::
  "('s, 't, 'w) TaskManagerOps \<Rightarrow> ('s, 't, 'f, 'z) EquivalenceChecker_scheme \<Rightarrow>
   ('s, 't, 'f, 'z) EquivalenceChecker_scheme" where
  "postprocess M c = on_task2 (postprocessTask M) (on_task1 (postprocessTask M) c)"

definition checkEquivalence ::
  "('s, 'w, 'f::{minus,plus,times,abs,ord,one}) Package \<Rightarrow> ('s, 't, 'w) TaskManagerOps \<Rightarrow>
   DDType \<Rightarrow> ('s, 't, 'f, 'z) EquivalenceChecker_scheme \<Rightarrow>
   EquivalenceCriterion \<times> ('s, 't, 'f, 'z) EquivalenceChecker_scheme" where
  "checkEquivalence P M T c =
     equals P T c (getInternalState M (taskManager1 c)) (getInternalState M (taskManager2 c))"

text \<open>
  \<^verbatim>\<open>run\<close>. The virtual functions \<^verbatim>\<open>initializeTask\<close> and \<^verbatim>\<open>checkEquivalence\<close> and
  the call of the scheme are arguments; so is \<open>elapsed\<close>, the difference of the two
  readings of the steady clock. A failure or a loop without end in \<^verbatim>\<open>execute\<close> is the
  result of the run.
\<close>

definition run ::
  "('s, 'w, 'f) Package \<Rightarrow> ('s, 't, 'w) TaskManagerOps \<Rightarrow> DDType \<Rightarrow>
   (('s, 't, 'f, 'z) EquivalenceChecker_scheme \<Rightarrow> 't \<Rightarrow> 's \<Rightarrow> 't \<times> 's) \<Rightarrow>
   (('s, 't, 'f, 'z) EquivalenceChecker_scheme \<Rightarrow>
      EquivalenceCriterion \<times> ('s, 't, 'f, 'z) EquivalenceChecker_scheme) \<Rightarrow>
   (('s, 't, 'f, 'z) EquivalenceChecker_scheme \<Rightarrow>
      error + ((nat \<times> nat) \<times> ('s, 't, 'f, 'z) EquivalenceChecker_scheme)) \<Rightarrow>
   'f \<Rightarrow> ('s, 't, 'f, 'z) EquivalenceChecker_scheme \<Rightarrow>
   (error + (EquivalenceCriterion \<times> ('s, 't, 'f, 'z) EquivalenceChecker_scheme)) option" where
  "run P M T initializeTask checkEq call elapsed c =
    (case execute M call (initialize initializeTask c) of
       None \<Rightarrow> None
     | Some (Inl e) \<Rightarrow> Some (Inl e)
     | Some (Inr c1) \<Rightarrow>
         (let c2 = finish_checker M c1;
              c3 = postprocess M c2;
              (equivalence, c4) = checkEq c3;
              c5 = c4\<lparr>maxActiveNodes := getMaxActiveNodes P T (dd c4)\<rparr>
          in Some (Inr (equivalence, c5\<lparr>runtime := elapsed\<rparr>))))"

section \<open>The simulation checker\<close>

text \<open>
  \<^verbatim>\<open>DDSimulationChecker\<close> derives from the checker over vector decision diagrams and
  adds the initial state. Its two constructors are \<open>DDSimulationChecker_new\<close>, which
  starts from the zero state, and \<open>DDSimulationChecker_new_with\<close>, which is given the
  initial state; it overrides \<^verbatim>\<open>initializeTask\<close> and \<^verbatim>\<open>checkEquivalence\<close>.
\<close>

record ('s, 't, 'f, 'w) DDSimulationChecker = "('s, 't, 'f) EquivalenceChecker" +
  initialState :: "'w Edge"

definition DDSimulationChecker_new ::
  "('s, 'w, 'f::zero) Package \<Rightarrow> ('s, 't, 'w) TaskManagerOps \<Rightarrow>
   QuantumComputation \<Rightarrow> QuantumComputation \<Rightarrow> 'f Configuration \<Rightarrow> Application \<Rightarrow>
   error + ('s, 't, 'f, 'w) DDSimulationChecker" where
  "DDSimulationChecker_new P M q1 q2 cfg moved =
    (case EquivalenceChecker_new P M VectorDD q1 q2 cfg moved of
       Inl e \<Rightarrow> Inl e
     | Inr c \<Rightarrow>
         (let (zero, pk) = makeZeroState P (nqubits c) (dd c)
          in Inr (EquivalenceChecker.extend (c\<lparr>dd := pk\<rparr>) (DDSimulationChecker.fields zero))))"

definition DDSimulationChecker_new_with ::
  "('s, 'w, 'f::zero) Package \<Rightarrow> ('s, 't, 'w) TaskManagerOps \<Rightarrow>
   QuantumComputation \<Rightarrow> QuantumComputation \<Rightarrow> 'f Configuration \<Rightarrow> Application \<Rightarrow>
   'w Edge \<Rightarrow> error + ('s, 't, 'f, 'w) DDSimulationChecker" where
  "DDSimulationChecker_new_with P M q1 q2 cfg moved initial =
    (case EquivalenceChecker_new P M VectorDD q1 q2 cfg moved of
       Inl e \<Rightarrow> Inl e
     | Inr c \<Rightarrow> Inr (EquivalenceChecker.extend c (DDSimulationChecker.fields initial)))"

definition DDSimulationChecker_initializeTask ::
  "('s, 't, 'w) TaskManagerOps \<Rightarrow> ('s, 't, 'f, 'w) DDSimulationChecker \<Rightarrow>
   't \<Rightarrow> 's \<Rightarrow> 't \<times> 's" where
  "DDSimulationChecker_initializeTask M c task pk =
     (let t = setInternalState M (initialState c) task
      in (t, incRefTask M t pk))"

definition DDSimulationChecker_checkEquivalence ::
  "('s, 'w, 'f::{minus,plus,times,abs,ord,one}) Package \<Rightarrow> ('s, 't, 'w) TaskManagerOps \<Rightarrow>
   ('s, 't, 'f, 'w) DDSimulationChecker \<Rightarrow>
   EquivalenceCriterion \<times> ('s, 't, 'f, 'w) DDSimulationChecker" where
  "DDSimulationChecker_checkEquivalence P M c =
     (let (equivalence, c1) = checkEquivalence P M VectorDD c;
          c2 = c1\<lparr>dd := decRefTask M (taskManager1 c1) (dd c1)\<rparr>;
          c3 = c2\<lparr>dd := decRefTask M (taskManager2 c2) (dd c2)\<rparr>
      in (equivalence, c3))"

text \<open>
  \<^verbatim>\<open>setRandomInitialState\<close>. The generator is an object of a class whose code is not
  among the sources: \<open>generateRandomState\<close> is an argument that takes the package, the
  two qubit counts, the type of state and the generator's own state \<open>g\<close>, and returns the
  state vector with the package and the generator as it leaves them. The chained
  assignment \<^verbatim>\<open>nancillary = nqubits = ...\<close> first stores into the member and then
  initialises the local from it.
\<close>

definition setRandomInitialState ::
  "('s \<Rightarrow> nat \<Rightarrow> nat \<Rightarrow> StateType \<Rightarrow> 'g \<Rightarrow> 'w Edge \<times> 's \<times> 'g) \<Rightarrow>
   ('s, 't, 'f, 'w) DDSimulationChecker \<Rightarrow> 'g \<Rightarrow> ('s, 't, 'f, 'w) DDSimulationChecker \<times> 'g" where
  "setRandomInitialState generateRandomState c g =
     (let c1 = c\<lparr>nqubits := getNqubitsWithoutAncillae (qc1 c)\<rparr>;
          nancillary = nqubits c1;
          (state, pk, g') =
             generateRandomState (dd c1) (nqubits c1) nancillary
               (stateType (simulation (configuration c1))) g
      in (c1\<lparr>initialState := state, dd := pk\<rparr>, g'))"

section \<open>Application schemes\<close>

text \<open>
  Modelled from the spec: the class \<^verbatim>\<open>OneToOneApplicationScheme\<close> is not among the
  sources; its policy is ``always \<open>(1, 1)\<close>'', and it touches nothing.
\<close>

definition OneToOneApplicationScheme_call ::
  "('s, 't, 'f, 'z) EquivalenceChecker_scheme \<Rightarrow>
   error + ((nat \<times> nat) \<times> ('s, 't, 'f, 'z) EquivalenceChecker_scheme)" where
  "OneToOneApplicationScheme_call c = Inr ((1, 1), c)"

text \<open>
  Modelled from the spec: the class \<^verbatim>\<open>GateCostApplicationScheme\<close> is not among the
  sources; its static policy is ``for the next gate \<open>g\<close> in circuit 1, return
  \<open>(1, cost(g))\<close>''. This is the scheme for a cost function that gives every gate the
  cost \<open>k\<close>; it touches nothing.
\<close>

definition GateCostApplicationScheme_call ::
  "nat \<Rightarrow> ('s, 't, 'f, 'z) EquivalenceChecker_scheme \<Rightarrow>
   error + ((nat \<times> nat) \<times> ('s, 't, 'f, 'z) EquivalenceChecker_scheme)" where
  "GateCostApplicationScheme_call k c = Inr ((1, k), c)"

subsection \<open>The lookahead scheme\<close>

text \<open>
  The members of \<^verbatim>\<open>LookaheadApplicationScheme\<close>. The scheme refers to the two task
  managers and points to the running matrix and to the package, all of which it changes;
  the record holds the objects behind the references and pointers as they currently are.
  A pointer is \<open>None\<close> while it is \<^verbatim>\<open>nullptr\<close>. The task managers work on the
  package the scheme points to, as the alternating checker wires them.
\<close>

record ('s, 't, 'w) LookaheadApplicationScheme =
  taskManager1 :: 't
  taskManager2 :: 't
  op1 :: "'w Edge"
  op2 :: "'w Edge"
  cached1 :: bool
  cached2 :: bool
  internalState :: "'w Edge option"
  package :: "'s option"

text \<open>
  \<^verbatim>\<open>LookaheadApplicationScheme::operator()\<close>, block by block in the order of the
  source. Past the two assertions both pointers are set and stay set, which is what
  \<open>the\<close> relies on.

  The first two blocks cache the operation under each cursor unless one is cached.
\<close>

definition cacheOperation1 ::
  "('s, 'w, 'f) Package \<Rightarrow> ('s, 't, 'w) TaskManagerOps \<Rightarrow>
   ('s, 't, 'w) LookaheadApplicationScheme \<Rightarrow> ('s, 't, 'w) LookaheadApplicationScheme" where
  "cacheOperation1 P M s =
     (if \<not> cached1 s then
        (let (d, pk) = getDD M (taskManager1 s) (the (package s))
         in s\<lparr>op1 := d, package := Some (incRef P d pk), cached1 := True\<rparr>)
      else s)"

definition cacheOperation2 ::
  "('s, 'w, 'f) Package \<Rightarrow> ('s, 't, 'w) TaskManagerOps \<Rightarrow>
   ('s, 't, 'w) LookaheadApplicationScheme \<Rightarrow> ('s, 't, 'w) LookaheadApplicationScheme" where
  "cacheOperation2 P M s =
     (if \<not> cached2 s then
        (let (d, pk) = getInverseDD M (taskManager2 s) (the (package s))
         in s\<lparr>op2 := d, package := Some (incRef P d pk), cached2 := True\<rparr>)
      else s)"

text \<open>
  ``Compute both possible applications and measure the resulting size'': the two
  products, their sizes, and the package after both multiplications.
\<close>

definition candidates ::
  "('s, 'w, 'f) Package \<Rightarrow> ('s, 't, 'w) LookaheadApplicationScheme \<Rightarrow>
   'w Edge \<times> nat \<times> 'w Edge \<times> nat \<times> 's" where
  "candidates P s =
     (let saved = the (internalState s);
          (dd1, pk1) = multiply P (op1 s) saved (the (package s));
          size1 = sizeDD P pk1 dd1;
          (dd2, pk2) = multiply P saved (op2 s) pk1;
          size2 = sizeDD P pk2 dd2
      in (dd1, size1, dd2, size2, pk2))"

text \<open>
  ``Greedily chose the smaller resulting decision diagram'' and ``properly track
  reference counts'': the assignment through the pointer, with \<open>saved\<close> the matrix it
  replaces.
\<close>

definition chooseSmaller ::
  "('s, 'w, 'f) Package \<Rightarrow> ('s, 't, 'w) LookaheadApplicationScheme \<Rightarrow>
   'w Edge \<times> nat \<times> 'w Edge \<times> nat \<times> 's \<Rightarrow> ('s, 't, 'w) LookaheadApplicationScheme" where
  "chooseSmaller P s cand =
     (let (dd1, size1, dd2, size2, pk2) = cand;
          saved = the (internalState s);
          s3 = (if size1 \<le> size2 then
                  s\<lparr>internalState := Some dd1,
                    package := Some (decRef P (op1 s) pk2), cached1 := False\<rparr>
                else
                  s\<lparr>internalState := Some dd2,
                    package := Some (decRef P (op2 s) pk2), cached2 := False\<rparr>)
      in s3\<lparr>package := Some (garbageCollect P
              (decRef P saved (incRef P (the (internalState s3)) (the (package s3)))))\<rparr>)"

text \<open>
  ``Properly handle any cached operations on exit'': the operation still cached for the
  other side is multiplied in, from the right for side 2 and from the left for side 1.
\<close>

definition applyCached2 ::
  "('s, 'w, 'f) Package \<Rightarrow> ('s, 't, 'w) LookaheadApplicationScheme \<Rightarrow>
   ('s, 't, 'w) LookaheadApplicationScheme" where
  "applyCached2 P s =
     (let saved = the (internalState s);
          (g, pk) = multiply P saved (op2 s) (the (package s));
          pk' = garbageCollect P (decRef P (op2 s) (decRef P saved (incRef P g pk)))
      in s\<lparr>internalState := Some g, package := Some pk', cached2 := False\<rparr>)"

definition applyCached1 ::
  "('s, 'w, 'f) Package \<Rightarrow> ('s, 't, 'w) LookaheadApplicationScheme \<Rightarrow>
   ('s, 't, 'w) LookaheadApplicationScheme" where
  "applyCached1 P s =
     (let saved = the (internalState s);
          (g, pk) = multiply P (op1 s) saved (the (package s));
          pk' = garbageCollect P (decRef P (op1 s) (decRef P saved (incRef P g pk)))
      in s\<lparr>internalState := Some g, package := Some pk', cached1 := False\<rparr>)"

text \<open>The call itself: the assertions, the blocks, and the three \<^verbatim>\<open>return\<close>
  statements of each side.\<close>

definition LookaheadApplicationScheme_call ::
  "('s, 'w, 'f) Package \<Rightarrow> ('s, 't, 'w) TaskManagerOps \<Rightarrow>
   ('s, 't, 'w) LookaheadApplicationScheme \<Rightarrow>
   error + ((nat \<times> nat) \<times> ('s, 't, 'w) LookaheadApplicationScheme)" where
  "LookaheadApplicationScheme_call P M s0 =
    (if internalState s0 = None then Inl UninitializedScheme
     else if package s0 = None then Inl UninitializedScheme
     else
       (let s2 = cacheOperation2 P M (cacheOperation1 P M s0);
            (dd1, size1, dd2, size2, pk2) = candidates P s2;
            s4 = chooseSmaller P s2 (dd1, size1, dd2, size2, pk2)
        in if size1 \<le> size2 then
             (if finished M (taskManager1 s4) then
                (if cached2 s4 then Inr ((0, 0), applyCached2 P s4)
                 else Inr ((0, 0), s4))
              else Inr ((0, 0), s4\<lparr>taskManager1 := advanceIterator M (taskManager1 s4)\<rparr>))
           else
             (if finished M (taskManager2 s4) then
                (if cached1 s4 then Inr ((0, 0), applyCached1 P s4)
                 else Inr ((0, 0), s4))
              else Inr ((0, 0), s4\<lparr>taskManager2 := advanceIterator M (taskManager2 s4)\<rparr>))))"

section \<open>An executable package and task manager\<close>

text \<open>
  Modelled from the spec: the decision diagram package is an external library, consumed
  through the contract of the spec's section on external interfaces. \<open>rotPackage\<close>
  interprets that contract over the rotations of one qubit about one axis by multiples
  of an eighth of a turn, so that the code above can be run on concrete circuits. A
  decision diagram has the number of eighths as its node pointer and a complex scalar as
  its weight. The operations of the package return the nodes \<open>0\<close> to \<open>7\<close>; node \<open>0\<close> is
  the identity and carries the \<^verbatim>\<open>ident\<close> flag. A pointer beyond \<open>7\<close> is a second node
  for the rotation it is congruent to, as numerical noise may leave one behind.
  Arithmetic is exact, so closeness to the identity is being the identity; weights agree
  approximately when their real and their imaginary parts differ by less than
  \<open>1 / 10 ^ 13\<close>. As state vectors the nodes are the eight basis states. The state of the
  package is the number of references it has been told of.
\<close>

definition rotPackage :: "(int, complex, real) Package" where
  "rotPackage =
    \<lparr>makePackage = (\<lambda>n. 0),
     ident = (\<lambda>pk n. n = 0),
     approximatelyEquals = (\<lambda>a b. \<bar>Re a - Re b\<bar> < 1 / 10 ^ 13 \<and> \<bar>Im a - Im b\<bar> < 1 / 10 ^ 13),
     multiply = (\<lambda>a b pk. (\<lparr>p = (p a + p b) mod 8, w = w a * w b\<rparr>, pk)),
     conjugateTranspose = (\<lambda>a pk. (\<lparr>p = (8 - p a mod 8) mod 8, w = cnj (w a)\<rparr>, pk)),
     isCloseToIdentity = (\<lambda>pk g eps. p g mod 8 = 0),
     innerProduct = (\<lambda>a b pk.
        (if p a mod 8 = p b mod 8 then \<lparr>r = Re (cnj (w a) * w b), i = Im (cnj (w a) * w b)\<rparr>
         else \<lparr>r = 0, i = 0\<rparr>, pk)),
     sizeDD = (\<lambda>pk g. p g mod 8 + 1),
     incRef = (\<lambda>g pk. pk + 1),
     decRef = (\<lambda>g pk. pk - 1),
     garbageCollect = (\<lambda>pk. pk),
     makeZeroState = (\<lambda>n pk. (\<lparr>p = 0, w = 1\<rparr>, pk)),
     getMaxActiveNodes = (\<lambda>T pk. 8)\<rparr>"

text \<open>
  Modelled from the spec: the class \<^verbatim>\<open>TaskManager\<close> is not among the sources. Its
  state is the spec's: the circuit, a cursor, a direction, the permutation (kept as the
  SWAPs applied so far) and the running decision diagram; a task manager has finished
  when the cursor is past the last gate.
\<close>

record TaskManager =
  tm_qc :: QuantumComputation
  tm_iterator :: nat
  tm_flipped :: bool
  tm_permutation :: "(nat \<times> nat) list"
  tm_internalState :: "complex Edge"

definition tm_finished :: "TaskManager \<Rightarrow> bool" where
  "tm_finished t = (length (gates (tm_qc t)) \<le> tm_iterator t)"

text \<open>The SWAPs at the head of the pending gates.\<close>

fun pendingSwaps :: "Operation list \<Rightarrow> (nat \<times> nat) list" where
  "pendingSwaps (SWAP a b # gs) = (a, b) # pendingSwaps gs"
| "pendingSwaps gs = []"

text \<open>
  \<^verbatim>\<open>applySwapOperations\<close>: while the next pending gate is a SWAP, rewrite the
  permutation rather than multiplying, and consume the SWAP.
\<close>

definition tm_applySwapOperations :: "TaskManager \<Rightarrow> int \<Rightarrow> TaskManager \<times> int" where
  "tm_applySwapOperations t pk =
     (let sw = pendingSwaps (drop (tm_iterator t) (gates (tm_qc t)))
      in (t\<lparr>tm_iterator := tm_iterator t + length sw,
            tm_permutation := tm_permutation t @ sw\<rparr>, pk))"

text \<open>
  The decision diagram of a gate and of its inverse; gate \<open>k\<close> is the rotation by \<open>k\<close>
  eighths. Past the last gate there is no gate under the cursor (the source would read
  past the end); the identity stands in there.
\<close>

fun gateDD :: "Operation list \<Rightarrow> complex Edge" where
  "gateDD (Gate k # gs) = \<lparr>p = k mod 8, w = 1\<rparr>"
| "gateDD gs = \<lparr>p = 0, w = 1\<rparr>"

definition tm_getDD :: "TaskManager \<Rightarrow> int \<Rightarrow> complex Edge \<times> int" where
  "tm_getDD t pk = (gateDD (drop (tm_iterator t) (gates (tm_qc t))), pk)"

definition tm_getInverseDD :: "TaskManager \<Rightarrow> int \<Rightarrow> complex Edge \<times> int" where
  "tm_getInverseDD t pk =
     conjugateTranspose rotPackage (gateDD (drop (tm_iterator t) (gates (tm_qc t)))) pk"

text \<open>
  One gate applied to the running decision diagram: from the left, or its inverse from
  the right after \<^verbatim>\<open>flipDirection\<close>; the new diagram gains a reference and the
  superseded one loses it.
\<close>

definition tm_applyGate :: "TaskManager \<Rightarrow> int \<Rightarrow> TaskManager \<times> int" where
  "tm_applyGate t pk =
     (let (g, pk1) = (if tm_flipped t then tm_getInverseDD t pk else tm_getDD t pk);
          (new, pk2) = (if tm_flipped t then multiply rotPackage (tm_internalState t) g pk1
                        else multiply rotPackage g (tm_internalState t) pk1);
          pk3 = decRef rotPackage (tm_internalState t) (incRef rotPackage new pk2)
      in (t\<lparr>tm_internalState := new, tm_iterator := tm_iterator t + 1\<rparr>, pk3))"

text \<open>
  \<^verbatim>\<open>advance(n)\<close>: apply the next \<open>n\<close> gates that are not SWAPs. It stops at the end of
  the circuit.
\<close>

fun tm_advance :: "nat \<Rightarrow> TaskManager \<Rightarrow> int \<Rightarrow> TaskManager \<times> int" where
  "tm_advance 0 t pk = (t, pk)"
| "tm_advance (Suc n) t pk =
     (let (t1, pk1) = tm_applySwapOperations t pk
      in if tm_finished t1 then (t1, pk1)
         else (let (t2, pk2) = tm_applyGate t1 pk1 in tm_advance n t2 pk2))"

text \<open>
  The remaining member functions. \<^verbatim>\<open>finish\<close> drains the trailing SWAPs. The circuits
  run here have the identity as output permutation and neither ancillary nor garbage
  qubits, for which the three steps of postprocessing leave the diagram as it is.
\<close>

definition taskManagerOps :: "(int, TaskManager, complex) TaskManagerOps" where
  "taskManagerOps =
    \<lparr>newTaskManager = (\<lambda>q. \<lparr>tm_qc = q, tm_iterator = 0, tm_flipped = False,
                             tm_permutation = [], tm_internalState = \<lparr>p = 0, w = 1\<rparr>\<rparr>),
     finished = tm_finished,
     applySwapOperations = tm_applySwapOperations,
     advance = tm_advance,
     advanceIterator = (\<lambda>t. t\<lparr>tm_iterator := tm_iterator t + 1\<rparr>),
     getDD = tm_getDD,
     getInverseDD = tm_getInverseDD,
     finish = tm_applySwapOperations,
     changePermutation = (\<lambda>t pk. (t, pk)),
     reduceAncillae = (\<lambda>t pk. (t, pk)),
     reduceGarbage = (\<lambda>t pk. (t, pk)),
     getInternalState = tm_internalState,
     setInternalState = (\<lambda>e t. t\<lparr>tm_internalState := e\<rparr>),
     incRefTask = (\<lambda>t pk. incRef rotPackage (tm_internalState t) pk),
     decRefTask = (\<lambda>t pk. decRef rotPackage (tm_internalState t) pk)\<rparr>"

section \<open>Example inputs\<close>

text \<open>
  Two one-qubit circuits of different length, the configuration with the thresholds
  at their defaults, and checkers over them. They are the inputs at which the theorems
  below are instantiated and the code is run.
\<close>

definition circuitA :: QuantumComputation where
  "circuitA = \<lparr>getNqubits = 1, getNqubitsWithoutAncillae = 1, gates = [Gate 1]\<rparr>"

definition circuitB :: QuantumComputation where
  "circuitB = \<lparr>getNqubits = 2, getNqubitsWithoutAncillae = 1, gates = [Gate 1, Gate 2]\<rparr>"

definition circuitC :: QuantumComputation where
  "circuitC = \<lparr>getNqubits = 1, getNqubitsWithoutAncillae = 1, gates = [Gate 7, Gate 3]\<rparr>"

definition exampleConfiguration :: "ApplicationSchemeType \<Rightarrow> real Configuration" where
  "exampleConfiguration t =
    \<lparr>application =
       \<lparr>scheme = t, useProfile = False, profileLocation = [], costFunction = None\<rparr>,
     functionality = \<lparr>traceThreshold = 1 / 10 ^ 8\<rparr>,
     simulation = \<lparr>fidelityThreshold = 1 / 10 ^ 8, stateType = ComputationalBasis\<rparr>\<rparr>"

text \<open>A checker with one task manager for each of the two circuits, the first over the
  shorter circuit and the second over the longer one, both at their first gate.\<close>

definition exampleChecker :: "(int, TaskManager, real) EquivalenceChecker" where
  "exampleChecker =
    \<lparr>qc1 = circuitA, qc2 = circuitB, nqubits = 2, dd = 0,
     taskManager1 = newTaskManager taskManagerOps circuitA,
     taskManager2 = newTaskManager taskManagerOps circuitB,
     configuration = exampleConfiguration OneToOne,
     applicationScheme = Some make_OneToOneApplicationScheme,
     maxActiveNodes = 0, runtime = 0\<rparr>"

text \<open>
  The configuration that asks for the static gate-cost scheme with every gate at cost 2,
  and the checker the constructor makes of it for the two-gate circuit: both task
  managers are over the first circuit, at its first gate.
\<close>

definition gateCostConfiguration :: "real Configuration" where
  "gateCostConfiguration =
    \<lparr>application =
       \<lparr>scheme = GateCost, useProfile = False, profileLocation = [],
        costFunction = Some (\<lambda>g. 2)\<rparr>,
     functionality = \<lparr>traceThreshold = 1 / 10 ^ 8\<rparr>,
     simulation = \<lparr>fidelityThreshold = 1 / 10 ^ 8, stateType = ComputationalBasis\<rparr>\<rparr>"

definition gateCostChecker :: "(int, TaskManager, real) EquivalenceChecker" where
  "gateCostChecker =
    \<lparr>qc1 = circuitB, qc2 = circuitB, nqubits = 2, dd = 0,
     taskManager1 = newTaskManager taskManagerOps circuitB,
     taskManager2 = newTaskManager taskManagerOps circuitB,
     configuration = gateCostConfiguration,
     applicationScheme = Some (make_GateCostApplicationScheme_costFunction (Some (\<lambda>g. 2))),
     maxActiveNodes = 0, runtime = 0\<rparr>"

text \<open>
  A lookahead scheme wired to the running matrix (the identity) and to the package, with
  \<open>Gate 1\<close> cached for side 1. The second task manager is at \<open>Gate 7\<close>, whose inverse is
  the rotation \<open>Gate 1\<close> again: both candidate products have the same size. Both task
  managers are at their first gate.
\<close>

definition exampleLookahead :: "(int, TaskManager, complex) LookaheadApplicationScheme" where
  "exampleLookahead =
    \<lparr>taskManager1 = newTaskManager taskManagerOps circuitA,
     taskManager2 = newTaskManager taskManagerOps circuitC,
     op1 = \<lparr>p = 1, w = 1\<rparr>, op2 = \<lparr>p = 0, w = 1\<rparr>,
     cached1 = True, cached2 = False,
     internalState = Some \<lparr>p = 0, w = 1\<rparr>, package = Some 1\<rparr>"

text \<open>The task manager over a circuit that starts with \<open>Gate 1\<close>, after that gate has
  been applied.\<close>

definition afterFirstGate :: "QuantumComputation \<Rightarrow> TaskManager" where
  "afterFirstGate q =
     (newTaskManager taskManagerOps q)\<lparr>tm_iterator := 1, tm_internalState := \<lparr>p = 1, w = 1\<rparr>\<rparr>"

text \<open>The task manager over a circuit that starts with \<open>Gate 1\<close> and \<open>Gate 2\<close>, after
  both gates have been applied.\<close>

definition afterSecondGate :: "QuantumComputation \<Rightarrow> TaskManager" where
  "afterSecondGate q =
     (newTaskManager taskManagerOps q)\<lparr>tm_iterator := 2, tm_internalState := \<lparr>p = 3, w = 1\<rparr>\<rparr>"

text \<open>
  A simulation checker over the two circuits, its task managers as the constructor
  makes them, and a state generator that records the two qubit counts it is given in the
  node pointer of the state it returns.
\<close>

definition exampleSimulation ::
  "(int, TaskManager, real, complex) DDSimulationChecker" where
  "exampleSimulation =
     EquivalenceChecker.extend
       (exampleChecker\<lparr>EquivalenceChecker.taskManager2 := newTaskManager taskManagerOps circuitA\<rparr>)
       (DDSimulationChecker.fields \<lparr>p = 0, w = 1\<rparr>)"

definition exampleGenerator ::
  "int \<Rightarrow> nat \<Rightarrow> nat \<Rightarrow> StateType \<Rightarrow> nat \<Rightarrow> complex Edge \<times> int \<times> nat" where
  "exampleGenerator pk n nancillary t g = (\<lparr>p = 10 * n + nancillary, w = 1\<rparr>, pk, g + 1)"

section \<open>Evaluating the executable package and task manager\<close>

lemma rotPackage_sel:
  "makePackage rotPackage n = 0"
  "ident rotPackage pk n = (n = 0)"
  "approximatelyEquals rotPackage a b =
     (\<bar>Re a - Re b\<bar> < 1 / 10 ^ 13 \<and> \<bar>Im a - Im b\<bar> < 1 / 10 ^ 13)"
  "multiply rotPackage d e pk = (\<lparr>p = (p d + p e) mod 8, w = w d * w e\<rparr>, pk)"
  "conjugateTranspose rotPackage d pk = (\<lparr>p = (8 - p d mod 8) mod 8, w = cnj (w d)\<rparr>, pk)"
  "isCloseToIdentity rotPackage pk d eps = (p d mod 8 = 0)"
  "innerProduct rotPackage d e pk =
     (if p d mod 8 = p e mod 8 then \<lparr>r = Re (cnj (w d) * w e), i = Im (cnj (w d) * w e)\<rparr>
      else \<lparr>r = 0, i = 0\<rparr>, pk)"
  "sizeDD rotPackage pk d = p d mod 8 + 1"
  "incRef rotPackage d pk = pk + 1"
  "decRef rotPackage d pk = pk - 1"
  "garbageCollect rotPackage pk = pk"
  "makeZeroState rotPackage n pk = (\<lparr>p = 0, w = 1\<rparr>, pk)"
  "getMaxActiveNodes rotPackage T pk = 8"
  by (simp_all add: rotPackage_def)

lemma taskManagerOps_sel:
  "newTaskManager taskManagerOps q =
     \<lparr>tm_qc = q, tm_iterator = 0, tm_flipped = False, tm_permutation = [],
      tm_internalState = \<lparr>p = 0, w = 1\<rparr>\<rparr>"
  "finished taskManagerOps = tm_finished"
  "applySwapOperations taskManagerOps = tm_applySwapOperations"
  "advance taskManagerOps = tm_advance"
  "advanceIterator taskManagerOps t = t\<lparr>tm_iterator := tm_iterator t + 1\<rparr>"
  "getDD taskManagerOps = tm_getDD"
  "getInverseDD taskManagerOps = tm_getInverseDD"
  "finish taskManagerOps = tm_applySwapOperations"
  "changePermutation taskManagerOps t pk = (t, pk)"
  "reduceAncillae taskManagerOps t pk = (t, pk)"
  "reduceGarbage taskManagerOps t pk = (t, pk)"
  "getInternalState taskManagerOps = tm_internalState"
  "setInternalState taskManagerOps e t = t\<lparr>tm_internalState := e\<rparr>"
  "incRefTask taskManagerOps t pk = pk + 1"
  "decRefTask taskManagerOps t pk = pk - 1"
  by (simp_all add: taskManagerOps_def rotPackage_def)

lemma no_pending_swaps:
  "pendingSwaps (drop (tm_iterator t) (gates (tm_qc t))) = [] \<Longrightarrow>
   tm_applySwapOperations t pk = (t, pk)"
  by (simp add: tm_applySwapOperations_def)

lemma first_gate:
  "gates q = Gate 1 # gs \<Longrightarrow>
   tm_advance (Suc 0) (newTaskManager taskManagerOps q) pk = (afterFirstGate q, pk)"
  by (simp add: afterFirstGate_def taskManagerOps_sel rotPackage_sel tm_applySwapOperations_def
      tm_applyGate_def tm_getDD_def tm_finished_def Let_def)

lemma afterFirstGate_circuitA_finished:
  "finished taskManagerOps (afterFirstGate circuitA)"
  by (simp add: afterFirstGate_def taskManagerOps_sel tm_finished_def circuitA_def)

lemma exampleSimulation_fields:
  "EquivalenceChecker.taskManager1 exampleSimulation = newTaskManager taskManagerOps circuitA"
  "EquivalenceChecker.taskManager2 exampleSimulation = newTaskManager taskManagerOps circuitA"
  "qc1 exampleSimulation = circuitA"
  "nqubits exampleSimulation = 2"
  "dd exampleSimulation = 0"
  "initialState exampleSimulation = \<lparr>p = 0, w = 1\<rparr>"
  by (simp_all add: exampleSimulation_def exampleChecker_def
      EquivalenceChecker.extend_def DDSimulationChecker.fields_def)

section \<open>The equals predicate: verdicts\<close>

text \<open>
  Claim C6. For decision diagrams \<open>e\<close> and \<open>f\<close> of either flavour whose node pointers are
  equal, \<^verbatim>\<open>equals\<close> returns \<open>Equivalent\<close> when the top edge weights are approximately
  equal and \<open>EquivalentUpToGlobalPhase\<close> when they are not, and leaves the checker as it
  is; in particular \<^verbatim>\<open>equals(M, M)\<close> is \<open>Equivalent\<close> for every decision diagram \<open>M\<close>
  whose weight the package finds approximately equal to itself.
\<close>

theorem equals_same_node:
  "(p e = p f \<longrightarrow>
      equals P T c e f =
        (if approximatelyEquals P (w e) (w f) then Equivalent else EquivalentUpToGlobalPhase, c)) \<and>
   (approximatelyEquals P (w m) (w m) \<longrightarrow> equals P T c m m = (Equivalent, c))"
  by (simp add: equals_def)

theorem equals_same_node_witness:
  "p \<lparr>p = 3, w = 1\<rparr> = p \<lparr>p = 3, w = - 1\<rparr> \<and>
   equals rotPackage VectorDD exampleChecker \<lparr>p = 3, w = 1\<rparr> \<lparr>p = 3, w = - 1\<rparr>
     = (EquivalentUpToGlobalPhase, exampleChecker) \<and>
   approximatelyEquals rotPackage (w \<lparr>p = 3, w = 1\<rparr>) (w \<lparr>p = 3, w = 1\<rparr>) \<and>
   equals rotPackage MatrixDD exampleChecker \<lparr>p = 3, w = 1\<rparr> \<lparr>p = 3, w = 1\<rparr>
     = (Equivalent, exampleChecker)"
  using equals_same_node [of "\<lparr>p = 3, w = 1\<rparr>" "\<lparr>p = 3, w = - 1\<rparr>" rotPackage VectorDD
      exampleChecker "\<lparr>p = 3, w = 1\<rparr>"]
    equals_same_node [of "\<lparr>p = 3, w = 1\<rparr>" "\<lparr>p = 3, w = 1\<rparr>" rotPackage MatrixDD
      exampleChecker "\<lparr>p = 3, w = 1\<rparr>"]
  by (simp add: rotPackage_sel)

text \<open>
  Claim C4. For matrix decision diagrams \<open>e\<close> and \<open>f\<close> with distinct node pointers,
  \<^verbatim>\<open>equals\<close> tests closeness to the identity, within \<^verbatim>\<open>traceThreshold\<close>, of
  \<open>g = e \<cdot> conjugateTranspose f\<close>; if the node of \<open>e\<close> is flagged as identity it skips the
  multiplication and tests \<open>f\<close>, and if the node of \<open>f\<close> is, it tests \<open>e\<close>. The verdict is
  \<open>Equivalent\<close> if the test succeeds and the top edge weights agree approximately,
  \<open>EquivalentUpToGlobalPhase\<close> if it succeeds and they differ, and \<open>NotEquivalent\<close>
  otherwise.
\<close>

theorem equals_matrix:
  fixes P :: "('s, 'w, 'f::{minus,plus,times,abs,ord,one}) Package"
  assumes "p e \<noteq> p f"
  shows "fst (equals P MatrixDD c e f) =
    (let eps = traceThreshold (functionality (configuration c));
         isClose =
           (if ident P (dd c) (p e) then isCloseToIdentity P (dd c) f eps
            else if ident P (dd c) (p f) then isCloseToIdentity P (dd c) e eps
            else (let (ft, pk1) = conjugateTranspose P f (dd c);
                      (g, pk2) = multiply P e ft pk1
                  in isCloseToIdentity P pk2 g eps))
     in if isClose \<and> approximatelyEquals P (w e) (w f) then Equivalent
        else if isClose then EquivalentUpToGlobalPhase
        else NotEquivalent)"
  using assms by (simp add: equals_def Let_def split: prod.splits)

theorem equals_matrix_witness:
  "p \<lparr>p = 3, w = 1\<rparr> \<noteq> p \<lparr>p = 11, w = - 1\<rparr> \<and>
   fst (equals rotPackage MatrixDD exampleChecker \<lparr>p = 3, w = 1\<rparr> \<lparr>p = 11, w = - 1\<rparr>)
     = EquivalentUpToGlobalPhase"
  using equals_matrix [of "\<lparr>p = 3, w = 1\<rparr>" "\<lparr>p = 11, w = - 1\<rparr>" rotPackage exampleChecker]
  by (simp add: rotPackage_sel)

text \<open>
  Claim C5. For vector decision diagrams \<open>e\<close> and \<open>f\<close> with distinct node pointers,
  \<^verbatim>\<open>equals\<close> computes the inner product of the two, with real part \<open>r\<close> and imaginary
  part \<open>i\<close>, and returns, in this order of precedence, \<open>Equivalent\<close> when
  \<open>\<bar>r - 1\<bar> < fidelityThreshold\<close>, else \<open>EquivalentUpToPhase\<close> when
  \<open>\<bar>r * r + i * i - 1\<bar> < fidelityThreshold\<close>, else \<open>NotEquivalent\<close>.
\<close>

theorem equals_vector:
  fixes P :: "('s, 'w, 'f::{minus,plus,times,abs,ord,one}) Package"
  assumes "p e \<noteq> p f"
  shows "fst (equals P VectorDD c e f) =
    (let ip = fst (innerProduct P e f (dd c));
         eps = fidelityThreshold (simulation (configuration c))
     in if \<bar>r ip - 1\<bar> < eps then Equivalent
        else if \<bar>r ip * r ip + i ip * i ip - 1\<bar> < eps then EquivalentUpToPhase
        else NotEquivalent)"
  using assms by (simp add: equals_def Let_def split: prod.splits)

theorem equals_vector_witness:
  "p \<lparr>p = 3, w = 1\<rparr> \<noteq> p \<lparr>p = 11, w = - 1\<rparr> \<and>
   fst (equals rotPackage VectorDD exampleChecker \<lparr>p = 3, w = 1\<rparr> \<lparr>p = 11, w = - 1\<rparr>)
     = EquivalentUpToPhase"
  using equals_vector [of "\<lparr>p = 3, w = 1\<rparr>" "\<lparr>p = 11, w = - 1\<rparr>" rotPackage exampleChecker]
  by (simp add: rotPackage_sel exampleChecker_def exampleConfiguration_def)

section \<open>Construction of the checker\<close>

text \<open>
  Claim C1. In the constructor of \<^verbatim>\<open>EquivalenceChecker\<close> the second task manager is
  constructed with \<^verbatim>\<open>qc1\<close>, not \<^verbatim>\<open>qc2\<close>, as its circuit: whatever the two input
  circuits, a checker that has been constructed holds two task managers made from the
  first circuit, while its members \<^verbatim>\<open>qc1\<close> and \<^verbatim>\<open>qc2\<close> hold the two inputs.
\<close>

theorem constructor_task_managers:
  assumes "EquivalenceChecker_new P M T q1 q2 cfg moved = Inr c"
  shows "EquivalenceChecker.taskManager1 c = newTaskManager M q1 \<and>
         EquivalenceChecker.taskManager2 c = newTaskManager M q1 \<and>
         qc1 c = q1 \<and> qc2 c = q2"
  using assms
  by (auto simp: EquivalenceChecker_new_def Let_def
      split: ApplicationSchemeType.splits DDType.splits if_splits)

theorem constructor_task_managers_witness:
  "EquivalenceChecker_new rotPackage taskManagerOps VectorDD circuitA circuitB
      (exampleConfiguration OneToOne) (application (exampleConfiguration OneToOne))
     = Inr (exampleChecker\<lparr>EquivalenceChecker.taskManager2 := newTaskManager taskManagerOps circuitA\<rparr>) \<and>
   tm_qc (EquivalenceChecker.taskManager2
      (exampleChecker\<lparr>EquivalenceChecker.taskManager2 := newTaskManager taskManagerOps circuitA\<rparr>))
     = circuitA \<and>
   qc2 (exampleChecker\<lparr>EquivalenceChecker.taskManager2 := newTaskManager taskManagerOps circuitA\<rparr>)
     = circuitB \<and>
   circuitA \<noteq> circuitB"
proof -
  have made: "EquivalenceChecker_new rotPackage taskManagerOps VectorDD circuitA circuitB
      (exampleConfiguration OneToOne) (application (exampleConfiguration OneToOne))
     = Inr (exampleChecker\<lparr>EquivalenceChecker.taskManager2 := newTaskManager taskManagerOps circuitA\<rparr>)"
    by (simp add: EquivalenceChecker_new_def exampleChecker_def exampleConfiguration_def
        circuitA_def circuitB_def rotPackage_sel Let_def)
  have t2: "tm_qc (EquivalenceChecker.taskManager2
      (exampleChecker\<lparr>EquivalenceChecker.taskManager2 := newTaskManager taskManagerOps circuitA\<rparr>))
      = circuitA"
    using constructor_task_managers [OF made] by (simp add: taskManagerOps_sel)
  have q2: "qc2 (exampleChecker\<lparr>EquivalenceChecker.taskManager2 := newTaskManager taskManagerOps circuitA\<rparr>)
      = circuitB"
    using constructor_task_managers [OF made] by simp
  have neq: "circuitA \<noteq> circuitB"
    by (simp add: circuitA_def circuitB_def)
  show ?thesis
    using made t2 q2 neq by blast
qed

text \<open>
  Claim C8. Constructing a checker over vector decision diagrams with the lookahead
  application scheme fails with \<open>UnsupportedSchemeForDDType\<close>; over matrix decision
  diagrams the same configuration constructs a \<^verbatim>\<open>LookaheadApplicationScheme\<close>.
\<close>

theorem lookahead_needs_matrices:
  assumes "scheme (application cfg) = Lookahead"
  shows "EquivalenceChecker_new P M VectorDD q1 q2 cfg moved = Inl UnsupportedSchemeForDDType \<and>
         (\<exists>c. EquivalenceChecker_new P M MatrixDD q1 q2 cfg moved = Inr c \<and>
              applicationScheme c = Some make_LookaheadApplicationScheme)"
  using assms by (simp add: EquivalenceChecker_new_def Let_def)

theorem lookahead_needs_matrices_witness:
  "scheme (application (exampleConfiguration Lookahead)) = Lookahead \<and>
   EquivalenceChecker_new rotPackage taskManagerOps VectorDD circuitA circuitB
      (exampleConfiguration Lookahead) (application (exampleConfiguration Lookahead))
     = Inl UnsupportedSchemeForDDType \<and>
   EquivalenceChecker_new rotPackage taskManagerOps MatrixDD circuitA circuitB
      (exampleConfiguration Lookahead) (application (exampleConfiguration Lookahead))
     = Inr (exampleChecker\<lparr>EquivalenceChecker.taskManager2 := newTaskManager taskManagerOps circuitA,
              configuration := exampleConfiguration Lookahead,
              applicationScheme := Some make_LookaheadApplicationScheme\<rparr>)"
  using lookahead_needs_matrices [of "exampleConfiguration Lookahead" rotPackage taskManagerOps
      circuitA circuitB "application (exampleConfiguration Lookahead)"]
  by (simp add: EquivalenceChecker_new_def exampleChecker_def exampleConfiguration_def
        circuitA_def circuitB_def rotPackage_sel Let_def)

section \<open>The simulation checker: a new initial state\<close>

text \<open>
  Claim C10. \<^verbatim>\<open>DDSimulationChecker::setRandomInitialState\<close> sets the checker's member
  \<^verbatim>\<open>nqubits\<close> to the number of qubits of \<^verbatim>\<open>qc1\<close> without ancillae and passes that
  same value to the state generator both as the number of qubits and as the number of
  ancillary qubits. Besides \<^verbatim>\<open>nqubits\<close> and \<^verbatim>\<open>initialState\<close> it assigns no member of
  the checker: the checker it leaves is the one it found with these two members set and
  with the package behind \<^verbatim>\<open>dd\<close> as the generator, to which it is handed, returns it.
\<close>

theorem setRandomInitialState_frame:
  assumes "setRandomInitialState G c g = (c', g')"
  shows "nqubits c' = getNqubitsWithoutAncillae (qc1 c) \<and>
         (initialState c', dd c', g') =
            G (dd c) (getNqubitsWithoutAncillae (qc1 c)) (getNqubitsWithoutAncillae (qc1 c))
              (stateType (simulation (configuration c))) g \<and>
         c' = c\<lparr>nqubits := getNqubitsWithoutAncillae (qc1 c),
                initialState := initialState c', dd := dd c'\<rparr>"
  using assms
  by (auto simp: setRandomInitialState_def Let_def split: prod.splits)

theorem setRandomInitialState_frame_witness:
  "setRandomInitialState exampleGenerator exampleSimulation 0
     = (exampleSimulation\<lparr>nqubits := 1, initialState := \<lparr>p = 11, w = 1\<rparr>\<rparr>, 1) \<and>
   nqubits exampleSimulation = 2 \<and> dd exampleSimulation = 0"
proof -
  have set: "setRandomInitialState exampleGenerator exampleSimulation 0
     = (exampleSimulation\<lparr>nqubits := 1, initialState := \<lparr>p = 11, w = 1\<rparr>\<rparr>, 1)"
    by (simp add: setRandomInitialState_def exampleGenerator_def exampleSimulation_def
        exampleChecker_def exampleConfiguration_def circuitA_def Let_def
        EquivalenceChecker.extend_def DDSimulationChecker.fields_def)
  have "nqubits (exampleSimulation\<lparr>nqubits := 1, initialState := \<lparr>p = 11, w = 1\<rparr>\<rparr>)
      = getNqubitsWithoutAncillae (qc1 exampleSimulation)"
    using setRandomInitialState_frame [OF set] by blast
  then show ?thesis
    using set exampleSimulation_fields by blast
qed

section \<open>The lookahead scheme\<close>

lemma cacheOperation1_frame:
  "taskManager1 (cacheOperation1 P M s) = taskManager1 s"
  "taskManager2 (cacheOperation1 P M s) = taskManager2 s"
  "internalState (cacheOperation1 P M s) = internalState s"
  "op2 (cacheOperation1 P M s) = op2 s"
  "cached2 (cacheOperation1 P M s) = cached2 s"
  "cached1 (cacheOperation1 P M s)"
  by (simp_all add: cacheOperation1_def Let_def split: prod.splits)

lemma cacheOperation2_frame:
  "taskManager1 (cacheOperation2 P M s) = taskManager1 s"
  "taskManager2 (cacheOperation2 P M s) = taskManager2 s"
  "internalState (cacheOperation2 P M s) = internalState s"
  "op1 (cacheOperation2 P M s) = op1 s"
  "cached1 (cacheOperation2 P M s) = cached1 s"
  "cached2 (cacheOperation2 P M s)"
  by (simp_all add: cacheOperation2_def Let_def split: prod.splits)

lemma chooseSmaller_frame:
  "taskManager1 (chooseSmaller P s cand) = taskManager1 s"
  "taskManager2 (chooseSmaller P s cand) = taskManager2 s"
  "op1 (chooseSmaller P s cand) = op1 s"
  "op2 (chooseSmaller P s cand) = op2 s"
  by (simp_all add: chooseSmaller_def Let_def split: prod.splits)

lemma chooseSmaller_side1:
  "size1 \<le> size2 \<Longrightarrow>
   internalState (chooseSmaller P s (dd1, size1, dd2, size2, pk)) = Some dd1 \<and>
   cached2 (chooseSmaller P s (dd1, size1, dd2, size2, pk)) = cached2 s \<and>
   \<not> cached1 (chooseSmaller P s (dd1, size1, dd2, size2, pk))"
  by (simp add: chooseSmaller_def Let_def)

lemma applyCached_frame:
  "taskManager1 (applyCached2 P s) = taskManager1 s"
  "taskManager2 (applyCached2 P s) = taskManager2 s"
  "taskManager1 (applyCached1 P s) = taskManager1 s"
  "taskManager2 (applyCached1 P s) = taskManager2 s"
  by (simp_all add: applyCached2_def applyCached1_def Let_def split: prod.splits)

lemma applyCached2_state:
  "internalState (applyCached2 P s) =
     Some (fst (multiply P (the (internalState s)) (op2 s) (the (package s))))"
  by (simp add: applyCached2_def Let_def split: prod.splits)

lemma candidates_dd1:
  "candidates P s = (dd1, size1, dd2, size2, pk) \<Longrightarrow>
   dd1 = fst (multiply P (op1 s) (the (internalState s)) (the (package s)))"
  by (auto simp: candidates_def Let_def split: prod.splits)

lemmas lookahead_example_defs =
  exampleLookahead_def circuitA_def circuitC_def
  taskManagerOps_sel rotPackage_sel tm_finished_def tm_getDD_def tm_getInverseDD_def
  cacheOperation1_def cacheOperation2_def candidates_def chooseSmaller_def
  applyCached1_def applyCached2_def LookaheadApplicationScheme_call_def

text \<open>
  Claim C9. Calling the lookahead scheme before both the pointer to the internal state
  and the pointer to the package have been set fails with \<open>UninitializedScheme\<close>; when
  both are set, the call does not fail with that error.
\<close>

theorem lookahead_uninitialized:
  "(internalState s = None \<or> package s = None \<longrightarrow>
      LookaheadApplicationScheme_call P M s = Inl UninitializedScheme) \<and>
   (internalState s \<noteq> None \<and> package s \<noteq> None \<longrightarrow>
      LookaheadApplicationScheme_call P M s \<noteq> Inl UninitializedScheme)"
  by (simp add: LookaheadApplicationScheme_call_def Let_def split: prod.splits)

theorem lookahead_uninitialized_witness:
  "package (exampleLookahead\<lparr>package := None\<rparr>) = None \<and>
   LookaheadApplicationScheme_call rotPackage taskManagerOps (exampleLookahead\<lparr>package := None\<rparr>)
     = Inl UninitializedScheme \<and>
   internalState exampleLookahead = Some \<lparr>p = 0, w = 1\<rparr> \<and>
   package exampleLookahead = Some 1 \<and>
   LookaheadApplicationScheme_call rotPackage taskManagerOps exampleLookahead
     \<noteq> Inl UninitializedScheme"
  using lookahead_uninitialized [of "exampleLookahead\<lparr>package := None\<rparr>" rotPackage taskManagerOps]
    lookahead_uninitialized [of exampleLookahead rotPackage taskManagerOps]
  by (simp add: exampleLookahead_def)

lemma chooseSmaller_side2:
  "\<not> size1 \<le> size2 \<Longrightarrow>
   internalState (chooseSmaller P s (dd1, size1, dd2, size2, pk)) = Some dd2 \<and>
   cached1 (chooseSmaller P s (dd1, size1, dd2, size2, pk)) = cached1 s \<and>
   \<not> cached2 (chooseSmaller P s (dd1, size1, dd2, size2, pk))"
  by (simp add: chooseSmaller_def Let_def)

text \<open>
  The call as \<^verbatim>\<open>execute\<close> makes it, while neither task manager has finished: the
  smaller product is assigned and the cursor of its side is advanced.
\<close>

lemma lookahead_guarded_call:
  assumes set: "internalState s \<noteq> None" "package s \<noteq> None"
    and nf: "\<not> finished M (taskManager1 s)" "\<not> finished M (taskManager2 s)"
    and cand: "candidates P (cacheOperation2 P M (cacheOperation1 P M s))
                 = (dd1, size1, dd2, size2, pk)"
  shows "LookaheadApplicationScheme_call P M s =
     Inr ((0, 0),
       (if size1 \<le> size2 then
          (chooseSmaller P (cacheOperation2 P M (cacheOperation1 P M s))
             (dd1, size1, dd2, size2, pk))
            \<lparr>taskManager1 := advanceIterator M (taskManager1 s)\<rparr>
        else
          (chooseSmaller P (cacheOperation2 P M (cacheOperation1 P M s))
             (dd1, size1, dd2, size2, pk))
            \<lparr>taskManager2 := advanceIterator M (taskManager2 s)\<rparr>))"
  using set nf cand
  by (simp add: LookaheadApplicationScheme_call_def chooseSmaller_frame cacheOperation1_frame
      cacheOperation2_frame)

text \<open>
  After such a call an operation is cached only for a side whose task manager has not
  finished: the side that was advanced has no cached operation left, and the other task
  manager is as it was.
\<close>

lemma lookahead_keeps_guard:
  assumes set: "internalState s \<noteq> None" "package s \<noteq> None"
    and nf: "\<not> finished M (taskManager1 s)" "\<not> finished M (taskManager2 s)"
    and ret: "LookaheadApplicationScheme_call P M s = Inr (res, s')"
  shows "(cached1 s' \<longrightarrow> \<not> finished M (taskManager1 s')) \<and>
         (cached2 s' \<longrightarrow> \<not> finished M (taskManager2 s'))"
proof -
  obtain dd1 size1 dd2 size2 pk where
    cand: "candidates P (cacheOperation2 P M (cacheOperation1 P M s))
             = (dd1, size1, dd2, size2, pk)"
    by (metis prod_cases5)
  show ?thesis
  proof (cases "size1 \<le> size2")
    case True
    then show ?thesis
      using ret nf
        chooseSmaller_side1 [OF True, of P "cacheOperation2 P M (cacheOperation1 P M s)" dd1 dd2 pk]
      by (auto simp: lookahead_guarded_call [OF set nf cand] chooseSmaller_frame
          cacheOperation1_frame cacheOperation2_frame)
  next
    case False
    then show ?thesis
      using ret nf
        chooseSmaller_side2 [OF False, of P "cacheOperation2 P M (cacheOperation1 P M s)" dd1 dd2 pk]
      by (auto simp: lookahead_guarded_call [OF set nf cand] chooseSmaller_frame
          cacheOperation1_frame cacheOperation2_frame)
  qed
qed

text \<open>
  What a call that passes the assertions returns, with \<open>s2\<close> the scheme once both
  operations are cached and \<open>s4\<close> the scheme once the smaller product has been assigned.
\<close>

lemma lookahead_call_cases:
  assumes set: "internalState s \<noteq> None" "package s \<noteq> None"
  shows
   "let s2 = cacheOperation2 P M (cacheOperation1 P M s);
        (dd1, size1, dd2, size2, pk) = candidates P s2;
        s4 = chooseSmaller P s2 (dd1, size1, dd2, size2, pk)
    in \<exists>s'. LookaheadApplicationScheme_call P M s = Inr ((0, 0), s') \<and>
         (size1 = size2 \<longrightarrow>
            dd1 = fst (multiply P (op1 s2) (the (internalState s)) (the (package s2))) \<and>
            taskManager2 s' = taskManager2 s \<and>
            (if finished M (taskManager1 s) then
               taskManager1 s' = taskManager1 s \<and>
               internalState s' = Some (fst (multiply P dd1 (op2 s2) (the (package s4))))
             else
               taskManager1 s' = advanceIterator M (taskManager1 s) \<and>
               internalState s' = Some dd1))"
proof -
  define s2 where "s2 = cacheOperation2 P M (cacheOperation1 P M s)"
  obtain dd1 size1 dd2 size2 pk where cand: "candidates P s2 = (dd1, size1, dd2, size2, pk)"
    by (metis prod_cases5)
  define s4 where "s4 = chooseSmaller P s2 (dd1, size1, dd2, size2, pk)"
  have tm: "taskManager1 s4 = taskManager1 s" "taskManager2 s4 = taskManager2 s"
    by (simp_all add: s4_def s2_def chooseSmaller_frame cacheOperation1_frame
        cacheOperation2_frame)
  have c2: "cached2 s2"
    by (simp add: s2_def cacheOperation2_frame)
  have st: "internalState s2 = internalState s"
    by (simp add: s2_def cacheOperation1_frame cacheOperation2_frame)
  have d1: "dd1 = fst (multiply P (op1 s2) (the (internalState s)) (the (package s2)))"
    using candidates_dd1 [OF cand] st by simp
  have call: "LookaheadApplicationScheme_call P M s =
     (if size1 \<le> size2 then
        (if finished M (taskManager1 s4) then
           (if cached2 s4 then Inr ((0, 0), applyCached2 P s4) else Inr ((0, 0), s4))
         else Inr ((0, 0), s4\<lparr>taskManager1 := advanceIterator M (taskManager1 s4)\<rparr>))
      else
        (if finished M (taskManager2 s4) then
           (if cached1 s4 then Inr ((0, 0), applyCached1 P s4) else Inr ((0, 0), s4))
         else Inr ((0, 0), s4\<lparr>taskManager2 := advanceIterator M (taskManager2 s4)\<rparr>)))"
    using set cand
    by (simp add: LookaheadApplicationScheme_call_def s2_def [symmetric] s4_def [symmetric])
  have goal: "\<exists>s'. LookaheadApplicationScheme_call P M s = Inr ((0, 0), s') \<and>
         (size1 = size2 \<longrightarrow>
            dd1 = fst (multiply P (op1 s2) (the (internalState s)) (the (package s2))) \<and>
            taskManager2 s' = taskManager2 s \<and>
            (if finished M (taskManager1 s) then
               taskManager1 s' = taskManager1 s \<and>
               internalState s' = Some (fst (multiply P dd1 (op2 s2) (the (package s4))))
             else
               taskManager1 s' = advanceIterator M (taskManager1 s) \<and>
               internalState s' = Some dd1))"
  proof (cases "size1 = size2")
    case True
    have s4_facts: "internalState s4 = Some dd1" "cached2 s4" "op2 s4 = op2 s2"
      using chooseSmaller_side1 [of size1 size2 P s2 dd1 dd2 pk] c2 True
      by (simp_all add: s4_def chooseSmaller_frame)
    show ?thesis
    proof (cases "finished M (taskManager1 s)")
      case fin: True
      have "LookaheadApplicationScheme_call P M s = Inr ((0, 0), applyCached2 P s4)"
        using True fin s4_facts by (simp add: call tm)
      then show ?thesis
        using d1 fin s4_facts by (simp add: tm applyCached_frame applyCached2_state)
    next
      case nfin: False
      have "LookaheadApplicationScheme_call P M s =
          Inr ((0, 0), s4\<lparr>taskManager1 := advanceIterator M (taskManager1 s4)\<rparr>)"
        using True nfin by (simp add: call tm)
      then show ?thesis
        using d1 nfin s4_facts by (simp add: tm)
    qed
  next
    case False
    then show ?thesis by (simp add: call)
  qed
  show ?thesis
    unfolding Let_def s2_def [symmetric] cand prod.case s4_def [symmetric]
    by (rule goal)
qed

text \<open>
  Claim C7. Every call of the lookahead scheme that returns, returns \<open>(0, 0)\<close>. The
  scheme is called by \<^verbatim>\<open>execute\<close>, which asks it only while neither task manager has
  finished, and the pointers to the internal state and to the package have been set. In
  such a call, whenever the two candidate products have the same size the scheme chooses
  side 1: the call returns \<open>(0, 0)\<close>, the internal state becomes \<open>op1 \<cdot> saved\<close>, and
  the cursor of the first task manager is advanced by one, while the second task manager
  stays as it is. Here \<open>s2\<close> is the scheme once both operations are cached.
\<close>

theorem lookahead_returns_zero_and_tie:
  "(\<forall>res s'. LookaheadApplicationScheme_call P M s = Inr (res, s') \<longrightarrow> res = (0, 0)) \<and>
   (internalState s \<noteq> None \<and> package s \<noteq> None \<and> \<not> finished M (taskManager1 s) \<longrightarrow>
     (let s2 = cacheOperation2 P M (cacheOperation1 P M s);
          (dd1, size1, dd2, size2, pk) = candidates P s2
      in \<exists>s'. LookaheadApplicationScheme_call P M s = Inr ((0, 0), s') \<and>
           (size1 = size2 \<longrightarrow>
              dd1 = fst (multiply P (op1 s2) (the (internalState s)) (the (package s2))) \<and>
              internalState s' = Some dd1 \<and>
              taskManager1 s' = advanceIterator M (taskManager1 s) \<and>
              taskManager2 s' = taskManager2 s)))"
proof (intro conjI allI impI)
  fix res s'
  assume ret: "LookaheadApplicationScheme_call P M s = Inr (res, s')"
  then have set: "internalState s \<noteq> None" "package s \<noteq> None"
    by (auto simp: LookaheadApplicationScheme_call_def split: if_splits)
  from lookahead_call_cases [OF set, of P M]
  obtain s'' where "LookaheadApplicationScheme_call P M s = Inr ((0, 0), s'')"
    by (auto simp: Let_def split: prod.splits)
  with ret show "res = (0, 0)" by simp
next
  assume a: "internalState s \<noteq> None \<and> package s \<noteq> None \<and> \<not> finished M (taskManager1 s)"
  then have set: "internalState s \<noteq> None" "package s \<noteq> None" by simp_all
  from lookahead_call_cases [OF set, of P M] a
  show "let s2 = cacheOperation2 P M (cacheOperation1 P M s);
          (dd1, size1, dd2, size2, pk) = candidates P s2
      in \<exists>s'. LookaheadApplicationScheme_call P M s = Inr ((0, 0), s') \<and>
           (size1 = size2 \<longrightarrow>
              dd1 = fst (multiply P (op1 s2) (the (internalState s)) (the (package s2))) \<and>
              internalState s' = Some dd1 \<and>
              taskManager1 s' = advanceIterator M (taskManager1 s) \<and>
              taskManager2 s' = taskManager2 s)"
    by (auto simp: Let_def split: prod.splits)
qed

theorem lookahead_returns_zero_and_tie_witness:
  "internalState exampleLookahead = Some \<lparr>p = 0, w = 1\<rparr> \<and>
   package exampleLookahead = Some 1 \<and>
   \<not> finished taskManagerOps (taskManager1 exampleLookahead) \<and>
   candidates rotPackage
     (cacheOperation2 rotPackage taskManagerOps
        (cacheOperation1 rotPackage taskManagerOps exampleLookahead))
     = (\<lparr>p = 1, w = 1\<rparr>, 2, \<lparr>p = 1, w = 1\<rparr>, 2, 2) \<and>
   LookaheadApplicationScheme_call rotPackage taskManagerOps exampleLookahead
     = Inr ((0, 0),
         exampleLookahead\<lparr>taskManager1 := afterFirstGate circuitA\<lparr>tm_internalState := \<lparr>p = 0, w = 1\<rparr>\<rparr>,
           op2 := \<lparr>p = 1, w = 1\<rparr>, cached1 := False, cached2 := True,
           internalState := Some \<lparr>p = 1, w = 1\<rparr>, package := Some 1\<rparr>)"
  using lookahead_returns_zero_and_tie
    [where s = exampleLookahead and P = rotPackage and M = taskManagerOps]
  by (simp add: lookahead_example_defs afterFirstGate_def Let_def)

section \<open>The loop of the generic checker\<close>

lemma execute_stop:
  "finished M (EquivalenceChecker.taskManager1 c) \<or> finished M (EquivalenceChecker.taskManager2 c)
   \<Longrightarrow> execute M call c = Some (Inr c)"
  by (subst execute.simps) auto

lemma execute_unfold:
  "execute M call c =
     (if finished M (EquivalenceChecker.taskManager1 c) \<or>
         finished M (EquivalenceChecker.taskManager2 c)
      then Some (Inr c)
      else
        (let c2 = on_task2 (applySwapOperations M) (on_task1 (applySwapOperations M) c)
         in if finished M (EquivalenceChecker.taskManager1 c2) \<or>
               finished M (EquivalenceChecker.taskManager2 c2)
            then Some (Inr c2)
            else
              (case call c2 of
                 Inl e \<Rightarrow> Some (Inl e)
               | Inr ((apply1, apply2), c3) \<Rightarrow>
                   execute M call (on_task2 (advance M apply2) (on_task1 (advance M apply1) c3)))))"
  by (subst execute.simps) (auto simp: Let_def execute_stop)

text \<open>The loop leaves a checker only when a task manager has finished: by induction
  over the iterations of a loop that ends.\<close>

lemma execute_exit:
  assumes "execute M call c = Some y"
  shows "\<forall>c'. y = Inr c' \<longrightarrow>
           finished M (EquivalenceChecker.taskManager1 c') \<or>
           finished M (EquivalenceChecker.taskManager2 c')"
  by (rule execute.raw_induct [OF _ assms])
     (auto simp: Let_def split: if_splits sum.splits prod.splits)

text \<open>The constructor makes the gate-cost checker of the two-gate circuit, with both task
  managers over the first circuit.\<close>

lemma gateCostChecker_constructed:
  "EquivalenceChecker_new rotPackage taskManagerOps MatrixDD circuitB circuitB
      gateCostConfiguration (application gateCostConfiguration) = Inr gateCostChecker"
  by (simp add: EquivalenceChecker_new_def gateCostChecker_def gateCostConfiguration_def
      circuitB_def rotPackage_sel Let_def)

lemma second_gate:
  "gates q = [Gate 1, Gate 2] \<Longrightarrow>
   tm_advance 2 (newTaskManager taskManagerOps q) pk = (afterSecondGate q, pk)"
  by (simp add: numeral_2_eq_2 afterSecondGate_def taskManagerOps_sel rotPackage_sel
      tm_applySwapOperations_def tm_applyGate_def tm_getDD_def tm_finished_def Let_def)

text \<open>One iteration on the gate-cost checker: the first task manager applies \<open>Gate 1\<close>,
  the second applies \<open>Gate 1\<close> and \<open>Gate 2\<close>, which are all its gates.\<close>

lemma gateCost_execute:
  "execute taskManagerOps (GateCostApplicationScheme_call 2) gateCostChecker
     = Some (Inr (gateCostChecker\<lparr>EquivalenceChecker.taskManager1 := afterFirstGate circuitB,
                      EquivalenceChecker.taskManager2 := afterSecondGate circuitB\<rparr>))"
proof -
  have sw: "on_task2 (applySwapOperations taskManagerOps)
              (on_task1 (applySwapOperations taskManagerOps) gateCostChecker) = gateCostChecker"
    by (simp add: on_task1_def on_task2_def gateCostChecker_def taskManagerOps_sel
        no_pending_swaps circuitB_def)
  have nf: "\<not> finished taskManagerOps (EquivalenceChecker.taskManager1 gateCostChecker)"
           "\<not> finished taskManagerOps (EquivalenceChecker.taskManager2 gateCostChecker)"
    by (simp_all add: gateCostChecker_def taskManagerOps_sel tm_finished_def circuitB_def)
  have g1: "gates circuitB = Gate 1 # [Gate 2]" and g2: "gates circuitB = [Gate 1, Gate 2]"
    by (simp_all add: circuitB_def)
  have adv: "on_task2 (advance taskManagerOps 2)
               (on_task1 (advance taskManagerOps (Suc 0)) gateCostChecker)
      = gateCostChecker\<lparr>EquivalenceChecker.taskManager1 := afterFirstGate circuitB,
                      EquivalenceChecker.taskManager2 := afterSecondGate circuitB\<rparr>"
    by (simp add: on_task1_def on_task2_def gateCostChecker_def taskManagerOps_sel(2-)
        first_gate [OF g1] second_gate [OF g2] del: tm_advance.simps)
  have fin: "finished taskManagerOps (afterSecondGate circuitB)"
    by (simp add: afterSecondGate_def taskManagerOps_sel tm_finished_def circuitB_def)
  have "execute taskManagerOps (GateCostApplicationScheme_call 2) gateCostChecker
      = execute taskManagerOps (GateCostApplicationScheme_call 2)
          (gateCostChecker\<lparr>EquivalenceChecker.taskManager1 := afterFirstGate circuitB,
                          EquivalenceChecker.taskManager2 := afterSecondGate circuitB\<rparr>)"
    by (subst execute_unfold) (simp add: sw nf GateCostApplicationScheme_call_def adv)
  also have "\<dots> = Some (Inr (gateCostChecker\<lparr>EquivalenceChecker.taskManager1 := afterFirstGate circuitB,
                          EquivalenceChecker.taskManager2 := afterSecondGate circuitB\<rparr>))"
    by (rule execute_stop) (simp add: fin)
  finally show ?thesis .
qed

text \<open>
  Claim C2, as the code has it. The generic \<^verbatim>\<open>execute\<close> loops over steps in this
  order: it applies the pending SWAP operations on both task managers, leaves the loop if
  either task manager has now finished, and otherwise obtains \<open>(a, b)\<close> from the
  application scheme and advances the first task manager by \<open>a\<close> gates and the second by
  \<open>b\<close> gates. The loop runs while neither task manager has finished: when it ends, at
  least one of the two has finished.
\<close>

theorem execute_loop:
  "execute M call c =
     (if finished M (EquivalenceChecker.taskManager1 c) \<or>
         finished M (EquivalenceChecker.taskManager2 c)
      then Some (Inr c)
      else
        (let c2 = on_task2 (applySwapOperations M) (on_task1 (applySwapOperations M) c)
         in if finished M (EquivalenceChecker.taskManager1 c2) \<or>
               finished M (EquivalenceChecker.taskManager2 c2)
            then Some (Inr c2)
            else
              (case call c2 of
                 Inl e \<Rightarrow> Some (Inl e)
               | Inr ((apply1, apply2), c3) \<Rightarrow>
                   execute M call (on_task2 (advance M apply2) (on_task1 (advance M apply1) c3))))) \<and>
   (execute M call c = Some (Inr c') \<longrightarrow>
      finished M (EquivalenceChecker.taskManager1 c') \<or>
      finished M (EquivalenceChecker.taskManager2 c'))"
  using execute_unfold [of M call c] execute_exit [of M call c "Inr c'"] by blast

theorem execute_loop_witness:
  "execute taskManagerOps (GateCostApplicationScheme_call 2) gateCostChecker
     = Some (Inr (gateCostChecker\<lparr>EquivalenceChecker.taskManager1 := afterFirstGate circuitB,
                      EquivalenceChecker.taskManager2 := afterSecondGate circuitB\<rparr>)) \<and>
   finished taskManagerOps (afterSecondGate circuitB)"
  using execute_loop [of taskManagerOps "GateCostApplicationScheme_call 2" gateCostChecker
      "gateCostChecker\<lparr>EquivalenceChecker.taskManager1 := afterFirstGate circuitB,
                      EquivalenceChecker.taskManager2 := afterSecondGate circuitB\<rparr>"]
  by (simp add: gateCost_execute)
     (simp add: afterSecondGate_def taskManagerOps_sel tm_finished_def circuitB_def)

text \<open>
  Claim C2 as stated has the loop run until both task managers are finished. The
  constructor, given the two-gate circuit and the gate-cost configuration, makes the
  gate-cost checker, both of whose task managers have two gates before them. The scheme
  returns \<open>(1, 2)\<close>, and the loop ends after one iteration: the second task manager has
  finished, and the first is at its second gate, not finished.
\<close>

theorem execute_until_both_counterexample:
  "EquivalenceChecker_new rotPackage taskManagerOps MatrixDD circuitB circuitB
      gateCostConfiguration (application gateCostConfiguration) = Inr gateCostChecker \<and>
   GateCostApplicationScheme_call 2 gateCostChecker = Inr ((1, 2), gateCostChecker) \<and>
   execute taskManagerOps (GateCostApplicationScheme_call 2) gateCostChecker
     = Some (Inr (gateCostChecker\<lparr>EquivalenceChecker.taskManager1 := afterFirstGate circuitB,
                      EquivalenceChecker.taskManager2 := afterSecondGate circuitB\<rparr>)) \<and>
   \<not> finished taskManagerOps
       (EquivalenceChecker.taskManager1
          (gateCostChecker\<lparr>EquivalenceChecker.taskManager1 := afterFirstGate circuitB,
                          EquivalenceChecker.taskManager2 := afterSecondGate circuitB\<rparr>))"
  by (simp add: gateCostChecker_constructed gateCost_execute GateCostApplicationScheme_call_def)
     (simp add: afterFirstGate_def taskManagerOps_sel tm_finished_def circuitB_def)

section \<open>The verdict of a run\<close>

lemma equals_verdict:
  "fst (equals P T c e f) \<in>
     {Equivalent, EquivalentUpToGlobalPhase, EquivalentUpToPhase, NotEquivalent}"
  by (simp add: equals_def Let_def split: DDType.splits prod.splits)

lemma simulation_verdict:
  "fst (DDSimulationChecker_checkEquivalence P M c) = fst (checkEquivalence P M VectorDD c)"
  by (simp add: DDSimulationChecker_checkEquivalence_def Let_def split: prod.splits)

lemma run_verdict:
  assumes "run P M T initTask checkEq call elapsed c = Some (Inr (v, c'))"
  shows "\<exists>c3. v = fst (checkEq c3)"
  using assms
  by (auto simp: run_def Let_def split: option.splits sum.splits prod.splits)
     (metis fst_conv)

text \<open>A run of the example simulation checker, step by step: \<^verbatim>\<open>initialize\<close>, one
  iteration of \<^verbatim>\<open>execute\<close>, \<^verbatim>\<open>finish\<close> and \<^verbatim>\<open>postprocess\<close>, and the comparison.\<close>

lemma example_initialize:
  "initialize (DDSimulationChecker_initializeTask taskManagerOps) exampleSimulation
     = exampleSimulation\<lparr>dd := 2\<rparr>"
  by (simp add: initialize_def DDSimulationChecker_initializeTask_def on_task1_def on_task2_def
      Let_def exampleSimulation_fields taskManagerOps_sel)

lemma example_simulation_execute:
  "execute taskManagerOps OneToOneApplicationScheme_call (exampleSimulation\<lparr>dd := 2\<rparr>)
     = Some (Inr (exampleSimulation\<lparr>dd := 2,
          EquivalenceChecker.taskManager1 := afterFirstGate circuitA,
          EquivalenceChecker.taskManager2 := afterFirstGate circuitA\<rparr>))"
proof -
  let ?c = "exampleSimulation\<lparr>dd := 2\<rparr>"
  let ?c' = "exampleSimulation\<lparr>dd := 2,
          EquivalenceChecker.taskManager1 := afterFirstGate circuitA,
          EquivalenceChecker.taskManager2 := afterFirstGate circuitA\<rparr>"
  have sw: "on_task2 (applySwapOperations taskManagerOps)
              (on_task1 (applySwapOperations taskManagerOps) ?c) = ?c"
    by (simp add: on_task1_def on_task2_def exampleSimulation_fields taskManagerOps_sel
        no_pending_swaps circuitA_def)
  have nf: "\<not> finished taskManagerOps (newTaskManager taskManagerOps circuitA)"
    by (simp add: taskManagerOps_sel tm_finished_def circuitA_def)
  have gA: "gates circuitA = Gate 1 # []"
    by (simp add: circuitA_def)
  have adv: "on_task2 (advance taskManagerOps (Suc 0))
               (on_task1 (advance taskManagerOps (Suc 0)) ?c) = ?c'"
    by (simp add: on_task1_def on_task2_def exampleSimulation_fields taskManagerOps_sel(2-)
        first_gate [OF gA] del: tm_advance.simps)
  have "execute taskManagerOps OneToOneApplicationScheme_call ?c
      = execute taskManagerOps OneToOneApplicationScheme_call ?c'"
    by (subst execute_unfold)
       (simp add: sw exampleSimulation_fields nf OneToOneApplicationScheme_call_def adv)
  also have "\<dots> = Some (Inr ?c')"
    by (rule execute_stop) (simp add: afterFirstGate_circuitA_finished)
  finally show ?thesis .
qed

lemma example_postprocess:
  "postprocess taskManagerOps (finish_checker taskManagerOps
        (exampleSimulation\<lparr>dd := 2,
          EquivalenceChecker.taskManager1 := afterFirstGate circuitA,
          EquivalenceChecker.taskManager2 := afterFirstGate circuitA\<rparr>))
   = exampleSimulation\<lparr>dd := 2,
          EquivalenceChecker.taskManager1 := afterFirstGate circuitA,
          EquivalenceChecker.taskManager2 := afterFirstGate circuitA\<rparr>"
proof -
  have sw: "tm_applySwapOperations (afterFirstGate circuitA) pk = (afterFirstGate circuitA, pk)"
    for pk
    by (rule no_pending_swaps) (simp add: afterFirstGate_def taskManagerOps_sel circuitA_def)
  show ?thesis
    by (simp add: postprocess_def finish_checker_def postprocessTask_def on_task1_def on_task2_def
        taskManagerOps_sel(2-) sw)
qed

lemma example_checkEquivalence:
  "checkEquivalence rotPackage taskManagerOps VectorDD
     (exampleSimulation\<lparr>dd := 2,
          EquivalenceChecker.taskManager1 := afterFirstGate circuitA,
          EquivalenceChecker.taskManager2 := afterFirstGate circuitA\<rparr>)
   = (Equivalent, exampleSimulation\<lparr>dd := 2,
          EquivalenceChecker.taskManager1 := afterFirstGate circuitA,
          EquivalenceChecker.taskManager2 := afterFirstGate circuitA\<rparr>)"
  by (simp add: checkEquivalence_def equals_def taskManagerOps_sel(2-) rotPackage_sel)

lemma example_simulation_checkEquivalence:
  "DDSimulationChecker_checkEquivalence rotPackage taskManagerOps
     (exampleSimulation\<lparr>dd := 2,
          EquivalenceChecker.taskManager1 := afterFirstGate circuitA,
          EquivalenceChecker.taskManager2 := afterFirstGate circuitA\<rparr>)
   = (Equivalent, exampleSimulation\<lparr>
          EquivalenceChecker.taskManager1 := afterFirstGate circuitA,
          EquivalenceChecker.taskManager2 := afterFirstGate circuitA\<rparr>)"
  by (simp add: DDSimulationChecker_checkEquivalence_def example_checkEquivalence
        taskManagerOps_sel(2-))
     (simp add: exampleSimulation_def exampleChecker_def
        EquivalenceChecker.extend_def DDSimulationChecker.fields_def)

lemma example_run_simulation:
  "run rotPackage taskManagerOps VectorDD (DDSimulationChecker_initializeTask taskManagerOps)
        (DDSimulationChecker_checkEquivalence rotPackage taskManagerOps)
        OneToOneApplicationScheme_call 5 exampleSimulation
     = Some (Inr (Equivalent, exampleSimulation\<lparr>
          EquivalenceChecker.taskManager1 := afterFirstGate circuitA,
          EquivalenceChecker.taskManager2 := afterFirstGate circuitA,
          maxActiveNodes := 8, runtime := 5\<rparr>))"
  by (simp add: run_def example_initialize example_simulation_execute example_postprocess
      example_simulation_checkEquivalence rotPackage_sel)

lemma example_run_generic:
  "run rotPackage taskManagerOps VectorDD (DDSimulationChecker_initializeTask taskManagerOps)
        (checkEquivalence rotPackage taskManagerOps VectorDD)
        OneToOneApplicationScheme_call 5 exampleSimulation
     = Some (Inr (Equivalent, exampleSimulation\<lparr>dd := 2,
          EquivalenceChecker.taskManager1 := afterFirstGate circuitA,
          EquivalenceChecker.taskManager2 := afterFirstGate circuitA,
          maxActiveNodes := 8, runtime := 5\<rparr>))"
  by (simp add: run_def example_initialize example_simulation_execute example_postprocess
      example_checkEquivalence rotPackage_sel)

text \<open>
  Claim C3, as the code has it. \<^verbatim>\<open>execute\<close> tests no flag: what it tests at the top of
  each iteration is whether a task manager has finished, and it leaves the loop at once
  when one has. A run takes the checker, the clock and the overridden member functions
  and nothing else, and a run that returns yields the verdict of the comparison of the
  two running decision diagrams, which is \<open>Equivalent\<close>, \<open>EquivalentUpToGlobalPhase\<close>,
  \<open>EquivalentUpToPhase\<close> or \<open>NotEquivalent\<close> and never \<open>NoInformation\<close>; this holds
  with the generic \<^verbatim>\<open>checkEquivalence\<close> and with that of the simulation checker.
\<close>

theorem run_never_NoInformation:
  "(finished M (EquivalenceChecker.taskManager1 c0) \<or>
    finished M (EquivalenceChecker.taskManager2 c0)
      \<longrightarrow> execute M call0 c0 = Some (Inr c0)) \<and>
   (run P M T initTask (checkEquivalence P M T) call elapsed c = Some (Inr (v, c')) \<longrightarrow>
      v \<in> {Equivalent, EquivalentUpToGlobalPhase, EquivalentUpToPhase, NotEquivalent}) \<and>
   (run P M VectorDD (DDSimulationChecker_initializeTask M)
        (DDSimulationChecker_checkEquivalence P M) call' elapsed s = Some (Inr (v', s')) \<longrightarrow>
      v' \<in> {Equivalent, EquivalentUpToGlobalPhase, EquivalentUpToPhase, NotEquivalent})"
proof (intro conjI impI)
  assume "finished M (EquivalenceChecker.taskManager1 c0) \<or>
          finished M (EquivalenceChecker.taskManager2 c0)"
  then show "execute M call0 c0 = Some (Inr c0)"
    by (rule execute_stop)
next
  assume "run P M T initTask (checkEquivalence P M T) call elapsed c = Some (Inr (v, c'))"
  from run_verdict [OF this]
  show "v \<in> {Equivalent, EquivalentUpToGlobalPhase, EquivalentUpToPhase, NotEquivalent}"
    using equals_verdict [of P T] by (auto simp: checkEquivalence_def)
next
  assume "run P M VectorDD (DDSimulationChecker_initializeTask M)
        (DDSimulationChecker_checkEquivalence P M) call' elapsed s = Some (Inr (v', s'))"
  from run_verdict [OF this]
  show "v' \<in> {Equivalent, EquivalentUpToGlobalPhase, EquivalentUpToPhase, NotEquivalent}"
    using equals_verdict [of P VectorDD] by (auto simp: simulation_verdict checkEquivalence_def)
qed

theorem run_never_NoInformation_witness:
  "finished taskManagerOps (EquivalenceChecker.taskManager1
      (exampleSimulation\<lparr>EquivalenceChecker.taskManager1 := afterFirstGate circuitA\<rparr>)) \<and>
   execute taskManagerOps OneToOneApplicationScheme_call
      (exampleSimulation\<lparr>EquivalenceChecker.taskManager1 := afterFirstGate circuitA\<rparr>)
     = Some (Inr (exampleSimulation\<lparr>EquivalenceChecker.taskManager1 := afterFirstGate circuitA\<rparr>)) \<and>
   run rotPackage taskManagerOps VectorDD (DDSimulationChecker_initializeTask taskManagerOps)
        (checkEquivalence rotPackage taskManagerOps VectorDD)
        OneToOneApplicationScheme_call 5 exampleSimulation
     = Some (Inr (Equivalent, exampleSimulation\<lparr>dd := 2,
          EquivalenceChecker.taskManager1 := afterFirstGate circuitA,
          EquivalenceChecker.taskManager2 := afterFirstGate circuitA,
          maxActiveNodes := 8, runtime := 5\<rparr>)) \<and>
   run rotPackage taskManagerOps VectorDD (DDSimulationChecker_initializeTask taskManagerOps)
        (DDSimulationChecker_checkEquivalence rotPackage taskManagerOps)
        OneToOneApplicationScheme_call 5 exampleSimulation
     = Some (Inr (Equivalent, exampleSimulation\<lparr>
          EquivalenceChecker.taskManager1 := afterFirstGate circuitA,
          EquivalenceChecker.taskManager2 := afterFirstGate circuitA,
          maxActiveNodes := 8, runtime := 5\<rparr>))"
proof -
  have fin: "finished taskManagerOps (EquivalenceChecker.taskManager1
      (exampleSimulation\<lparr>EquivalenceChecker.taskManager1 := afterFirstGate circuitA\<rparr>))"
    by (simp add: afterFirstGate_circuitA_finished)
  note inst = run_never_NoInformation [where M = taskManagerOps
      and ?c0.0 = "exampleSimulation\<lparr>EquivalenceChecker.taskManager1 := afterFirstGate circuitA\<rparr>"
      and ?call0.0 = OneToOneApplicationScheme_call
      and P = rotPackage and T = VectorDD
      and initTask = "DDSimulationChecker_initializeTask taskManagerOps"
      and call = OneToOneApplicationScheme_call and elapsed = 5 and c = exampleSimulation
      and v = Equivalent and call' = OneToOneApplicationScheme_call and s = exampleSimulation
      and v' = Equivalent]
  have "execute taskManagerOps OneToOneApplicationScheme_call
      (exampleSimulation\<lparr>EquivalenceChecker.taskManager1 := afterFirstGate circuitA\<rparr>)
     = Some (Inr (exampleSimulation\<lparr>EquivalenceChecker.taskManager1 := afterFirstGate circuitA\<rparr>))"
    using inst fin by blast
  then show ?thesis
    using fin example_run_generic example_run_simulation by blast
qed

text \<open>
  Claim C3 as stated has a run end with \<open>NoInformation\<close> once a shared flag is set.
  No member function of the generic checker reads such a flag, so that setting one
  changes nothing: the run of the example simulation checker goes through its one
  iteration and yields \<open>Equivalent\<close>.
\<close>

theorem run_done_flag_counterexample:
  "run rotPackage taskManagerOps VectorDD (DDSimulationChecker_initializeTask taskManagerOps)
        (DDSimulationChecker_checkEquivalence rotPackage taskManagerOps)
        OneToOneApplicationScheme_call 5 exampleSimulation
     = Some (Inr (Equivalent, exampleSimulation\<lparr>
          EquivalenceChecker.taskManager1 := afterFirstGate circuitA,
          EquivalenceChecker.taskManager2 := afterFirstGate circuitA,
          maxActiveNodes := 8, runtime := 5\<rparr>)) \<and>
   Equivalent \<noteq> NoInformation"
  by (simp add: example_run_simulation)

end
